theory Spec2Isabelle
  imports Complex_Main
begin

section \<open>Data model of the backend handler (backend/src/index.ts)\<close>

text \<open>
  Values of the JavaScript runtime that the handler touches: parsed JSON documents, the
  inbound body and the diagnostic payload of an error. A parsed JSON number is a finite
  double, hence a rational; the only falsy number that parsing can produce is zero. An
  object is the list of its own properties.
\<close>

datatype js_value =
    JUndefined
  | JNull
  | JBool bool
  | JNum rat
  | JStr string
  | JArr "js_value list"
  | JObj "(string \<times> js_value) list"
  | JBuffer string

text \<open>Truthiness, as tested by \<^verbatim>\<open>!token\<close> and \<^verbatim>\<open>!req.body\<close>.\<close>

fun truthy :: "js_value \<Rightarrow> bool" where
  "truthy JUndefined = False"
| "truthy JNull = False"
| "truthy (JBool b) = b"
| "truthy (JNum n) = (n \<noteq> 0)"
| "truthy (JStr s) = (s \<noteq> [])"
| "truthy (JArr xs) = True"
| "truthy (JObj kvs) = True"
| "truthy (JBuffer bs) = True"

text \<open>
  Optional property access \<^verbatim>\<open>v?.k\<close> for a key that no prototype defines
  (\<^verbatim>\<open>data\<close>, \<^verbatim>\<open>patient\<close>, \<^verbatim>\<open>currentToken\<close>): only an object can
  have it, everything else yields \<^verbatim>\<open>undefined\<close>.
\<close>

fun get_prop :: "string \<Rightarrow> js_value \<Rightarrow> js_value" where
  "get_prop k (JObj kvs) = (case map_of kvs k of None \<Rightarrow> JUndefined | Some v \<Rightarrow> v)"
| "get_prop k v = JUndefined"

text \<open>
  A thrown \<^verbatim>\<open>Error\<close>: its message and the two properties that the handler reads
  back, \<^verbatim>\<open>status\<close> (absent on errors raised by libraries) and \<^verbatim>\<open>details\<close>
  (\<^verbatim>\<open>undefined\<close> when absent).
\<close>

record js_error =
  message :: string
  err_status :: "nat option"
  details :: js_value

definition plain_error :: "string \<Rightarrow> js_error" where
  "plain_error m = \<lparr>message = m, err_status = None, details = JUndefined\<rparr>"

text \<open>The validated configuration, the type \<^verbatim>\<open>Env\<close> inferred from \<^verbatim>\<open>REQUIRED_ENV\<close>.\<close>

record Env =
  CURASEV_USERNAME :: string
  CURASEV_PASSWORD :: string
  CURASEV_CLIENT_KEY :: string
  BASIC_AUTH_USER :: string
  BASIC_AUTH_PASS :: string

text \<open>
  The inbound request: the members of \<^verbatim>\<open>VercelRequest\<close> that the handler reads.
  Header names are lower case, as Node delivers them, and the method of a request that a
  server receives is always present.
\<close>

record request =
  req_method :: string
  req_url :: "string option"
  req_headers :: "string \<rightharpoonup> string"
  req_body :: js_value

text \<open>What \<^verbatim>\<open>new URL(input, base)\<close> exposes of a parsed address.\<close>

record url =
  pathname :: string
  search :: string

text \<open>
  A call of \<^verbatim>\<open>fetch(url, init)\<close>, the address paired with the options, and the
  response it resolves to.
\<close>

record RequestInit =
  fr_method :: string
  fr_headers :: "(string \<times> string) list"
  fr_body :: "string option"

type_synonym fetch_call = "string \<times> RequestInit"

record fetch_response =
  status :: nat
  content_type :: "string option"
  body_text :: string
  body_json :: "string + js_value"

text \<open>
  \<^verbatim>\<open>response.ok\<close> is true for the statuses 200 to 299. \<^const>\<open>body_text\<close> is what
  \<^verbatim>\<open>response.text()\<close> resolves to; \<^const>\<open>body_json\<close> is the outcome of
  \<^verbatim>\<open>response.json()\<close>: the parsed document, or the message of the error it rejects
  with when the body is not JSON.
\<close>

definition ok :: "fetch_response \<Rightarrow> bool" where
  "ok r \<longleftrightarrow> 200 \<le> status r \<and> status r < 300"

text \<open>The outbound response object \<^verbatim>\<open>res\<close>: status code, headers, and what was sent.\<close>

datatype payload = Json js_value | Text string

record vercel_response =
  statusCode :: nat
  res_headers :: "string \<rightharpoonup> string"
  sent :: "payload option"

definition res_status :: "nat \<Rightarrow> vercel_response \<Rightarrow> vercel_response" where
  "res_status n r = r\<lparr>statusCode := n\<rparr>"

definition res_setHeader :: "string \<Rightarrow> string \<Rightarrow> vercel_response \<Rightarrow> vercel_response" where
  "res_setHeader k v r = r\<lparr>res_headers := (res_headers r)(k \<mapsto> v)\<rparr>"

definition res_json :: "js_value \<Rightarrow> vercel_response \<Rightarrow> vercel_response" where
  "res_json v r = r\<lparr>sent := Some (Json v)\<rparr>"

definition res_send :: "string \<Rightarrow> vercel_response \<Rightarrow> vercel_response" where
  "res_send t r = r\<lparr>sent := Some (Text t)\<rparr>"

text \<open>
  Everything outside the repository that the handler calls. The library functions
  (\<^verbatim>\<open>JSON.stringify\<close>, string conversion in a template literal,
  \<^verbatim>\<open>Buffer.from(s, 'base64').toString('utf8')\<close>, which never raises, and the
  \<^verbatim>\<open>URL\<close> constructor, which raises on an unparsable address) are parameters: every
  theorem below holds whatever they compute. The clock and the upstream service are
  oracles: \<^verbatim>\<open>clock\<close> gives the value of the n-th reading of
  \<^verbatim>\<open>Date.now()\<close>, and \<^verbatim>\<open>upstream\<close> gives the outcome of the n-th
  \<^verbatim>\<open>fetch\<close>, a response or the message of a network failure.
\<close>

record runtime =
  JSON_stringify :: "js_value \<Rightarrow> string"
  String_of :: "js_value \<Rightarrow> string"
  base64_utf8 :: "string \<Rightarrow> string"
  URL_new :: "string \<Rightarrow> string \<Rightarrow> url option"
  clock :: "nat \<Rightarrow> int"
  upstream :: "nat \<Rightarrow> fetch_call \<Rightarrow> string + fetch_response"

text \<open>
  The mutable state of one process: the module variable \<^verbatim>\<open>cachedToken\<close>, the
  response object of the invocation, and the trace of what has been asked of the outside
  (clock readings taken, upstream calls issued, in order).
\<close>

record cached =
  token :: js_value
  fetchedAt :: int

record world =
  cachedToken :: "cached option"
  res :: vercel_response
  ticks :: nat
  calls :: "fetch_call list"

type_synonym 'a promise = "world \<Rightarrow> (js_error + 'a) \<times> world"

section \<open>The operations\<close>

definition CURASEV_BASE_URL :: string where
  "CURASEV_BASE_URL = ''https://api.curasev.com''"

definition AUTH_ENDPOINT :: string where
  "AUTH_ENDPOINT = ''/api/v1/user/authenticate''"

definition TOKEN_TTL_MS :: int where
  "TOKEN_TTL_MS = 1000 * 60 * 25"

subsection \<open>Configuration: \<^verbatim>\<open>REQUIRED_ENV\<close> and \<^verbatim>\<open>getEnv\<close>\<close>

text \<open>
  The schema is an object of five strings of length at least one. Parsing
  \<^verbatim>\<open>process.env\<close> against it reports one issue per key that is absent or too
  short, in the order of the schema, each with the key as its path.
\<close>

definition REQUIRED_ENV :: "string list" where
  "REQUIRED_ENV = [''CURASEV_USERNAME'', ''CURASEV_PASSWORD'', ''CURASEV_CLIENT_KEY'',
     ''BASIC_AUTH_USER'', ''BASIC_AUTH_PASS'']"

definition issue :: "(string \<rightharpoonup> string) \<Rightarrow> string \<Rightarrow> bool" where
  "issue penv k = (case penv k of None \<Rightarrow> True | Some v \<Rightarrow> length v < 1)"

definition issues :: "(string \<rightharpoonup> string) \<Rightarrow> string list" where
  "issues penv = filter (issue penv) REQUIRED_ENV"

text \<open>\<^verbatim>\<open>xs.join(sep)\<close>\<close>

fun join :: "string \<Rightarrow> string list \<Rightarrow> string" where
  "join sep [] = []"
| "join sep [x] = x"
| "join sep (x # y # ys) = x @ sep @ join sep (y # ys)"

text \<open>When no issue is reported the five values are present, and they are the parsed data.\<close>

definition getEnv :: "(string \<rightharpoonup> string) \<Rightarrow> js_error + Env" where
  "getEnv penv =
     (if issues penv \<noteq> [] then
        Inl \<lparr>message = ''Missing environment variables'', err_status = Some 500,
             details = JStr (join '', '' (issues penv))\<rparr>
      else
        Inr \<lparr>CURASEV_USERNAME = the (penv ''CURASEV_USERNAME''),
             CURASEV_PASSWORD = the (penv ''CURASEV_PASSWORD''),
             CURASEV_CLIENT_KEY = the (penv ''CURASEV_CLIENT_KEY''),
             BASIC_AUTH_USER = the (penv ''BASIC_AUTH_USER''),
             BASIC_AUTH_PASS = the (penv ''BASIC_AUTH_PASS'')\<rparr>)"

subsection \<open>Credential guard: \<^verbatim>\<open>assertBasicAuth\<close>\<close>

definition throwUnauthorized :: js_error where
  "throwUnauthorized = \<lparr>message = ''Unauthorized'', err_status = Some 401, details = JUndefined\<rparr>"

text \<open>\<^verbatim>\<open>s.startsWith(p)\<close>\<close>

definition startsWith :: "string \<Rightarrow> string \<Rightarrow> bool" where
  "startsWith p s \<longleftrightarrow> take (length p) s = p"

text \<open>\<^verbatim>\<open>s.split(':')\<close>: the segments between colons, one more than there are colons.\<close>

fun split_colon :: "string \<Rightarrow> string list" where
  "split_colon [] = [[]]"
| "split_colon (c # cs) =
     (if c = CHR '':'' then [] # split_colon cs
      else (case split_colon cs of [] \<Rightarrow> [[c]] | s # ss \<Rightarrow> (c # s) # ss))"

text \<open>An element of an array by position, \<^verbatim>\<open>undefined\<close> beyond its end.\<close>

definition elem_at :: "'a list \<Rightarrow> nat \<Rightarrow> 'a option" where
  "elem_at xs i = (if i < length xs then Some (xs ! i) else None)"

definition assertBasicAuth :: "runtime \<Rightarrow> request \<Rightarrow> Env \<Rightarrow> js_error + unit" where
  "assertBasicAuth rt req env =
     (case req_headers req ''authorization'' of
        None \<Rightarrow> Inl throwUnauthorized
      | Some header \<Rightarrow>
          if \<not> startsWith ''Basic '' header then Inl throwUnauthorized
          else
            let decoded = base64_utf8 rt (drop (length ''Basic '') header);
                parts = split_colon decoded;
                user = elem_at parts 0;
                pass = elem_at parts 1
            in if user \<noteq> Some (BASIC_AUTH_USER env) \<or> pass \<noteq> Some (BASIC_AUTH_PASS env)
               then Inl throwUnauthorized
               else Inr ())"

subsection \<open>Upstream calls: \<^verbatim>\<open>fetchCurasev\<close>\<close>

text \<open>A natural number in decimal, as a template literal prints a status code.\<close>

fun show_nat :: "nat \<Rightarrow> string" where
  "show_nat n =
     (if n < 10 then [''0123456789'' ! n]
      else show_nat (n div 10) @ [''0123456789'' ! (n mod 10)])"

definition fetchCurasev :: "runtime \<Rightarrow> string \<Rightarrow> RequestInit \<Rightarrow> fetch_response promise" where
  "fetchCurasev rt path init w =
     (let call = (CURASEV_BASE_URL @ path, init);
          w' = w\<lparr>calls := calls w @ [call]\<rparr>
      in case upstream rt (length (calls w)) call of
           Inl failure \<Rightarrow> (Inl (plain_error failure), w')
         | Inr response \<Rightarrow>
             if \<not> ok response then
               (Inl \<lparr>message = ''Curasev API error: '' @ show_nat (status response),
                     err_status = Some (status response),
                     details = JStr (body_text response)\<rparr>, w')
             else (Inr response, w'))"

subsection \<open>Upstream session manager: \<^verbatim>\<open>getToken\<close>\<close>

definition Date_now :: "runtime \<Rightarrow> world \<Rightarrow> int \<times> world" where
  "Date_now rt w = (clock rt (ticks w), w\<lparr>ticks := Suc (ticks w)\<rparr>)"

text \<open>\<^verbatim>\<open>json?.data?.patient?.currentToken\<close>\<close>

definition currentToken :: "js_value \<Rightarrow> js_value" where
  "currentToken json = get_prop ''currentToken'' (get_prop ''patient'' (get_prop ''data'' json))"

text \<open>
  Lines 69 to 89 of \<^verbatim>\<open>getToken\<close>: the upstream authentication call, taken when
  the cached token cannot be used.
\<close>

definition refreshToken :: "runtime \<Rightarrow> Env \<Rightarrow> js_value promise" where
  "refreshToken rt env w =
     (let payload = JObj [(''p1'', JStr (CURASEV_USERNAME env)), (''p2'', JStr (CURASEV_PASSWORD env))]
      in case fetchCurasev rt AUTH_ENDPOINT
                \<lparr>fr_method = ''POST'',
                 fr_headers = [(''Content-Type'', ''application/json'')],
                 fr_body = Some (JSON_stringify rt payload)\<rparr> w of
           (Inl e, w1) \<Rightarrow> (Inl e, w1)
         | (Inr response, w1) \<Rightarrow>
             (case body_json response of
                Inl failure \<Rightarrow> (Inl (plain_error failure), w1)
              | Inr json \<Rightarrow>
                  let tok = currentToken json
                  in if \<not> truthy tok then
                       (Inl \<lparr>message = ''Curasev authentication failed: missing token'',
                             err_status = Some 502, details = json\<rparr>, w1)
                     else
                       let (now, w2) = Date_now rt w1
                       in (Inr tok, w2\<lparr>cachedToken := Some \<lparr>token = tok, fetchedAt = now\<rparr>\<rparr>)))"

text \<open>
  The test of line 66 reads the clock only when a token is cached
  (\<^verbatim>\<open>&&\<close> evaluates its right operand only then).
\<close>

definition getToken :: "runtime \<Rightarrow> Env \<Rightarrow> js_value promise" where
  "getToken rt env w =
     (case cachedToken w of
        None \<Rightarrow> refreshToken rt env w
      | Some c \<Rightarrow>
          let (now, w1) = Date_now rt w
          in if now - fetchedAt c < TOKEN_TTL_MS then (Inr (token c), w1)
             else refreshToken rt env w1)"

subsection \<open>Upstream forwarder: \<^verbatim>\<open>proxyRequest\<close>, \<^verbatim>\<open>buildSearch\<close>, \<^verbatim>\<open>getForwardBody\<close>\<close>

text \<open>
  The address that \<^verbatim>\<open>buildSearch\<close> and \<^verbatim>\<open>resolveRoute\<close> both parse:
  \<^verbatim>\<open>new URL(req.url ?? '', `https://${req.headers.host ?? 'localhost'}`)\<close>.
\<close>

definition request_URL :: "runtime \<Rightarrow> request \<Rightarrow> js_error + url" where
  "request_URL rt req =
     (case URL_new rt (case req_url req of None \<Rightarrow> [] | Some u \<Rightarrow> u)
             (''https://'' @ (case req_headers req ''host'' of None \<Rightarrow> ''localhost'' | Some h \<Rightarrow> h)) of
        None \<Rightarrow> Inl (plain_error ''Invalid URL'')
      | Some u \<Rightarrow> Inr u)"

definition buildSearch :: "runtime \<Rightarrow> request \<Rightarrow> js_error + string" where
  "buildSearch rt req =
     (case request_URL rt req of Inl e \<Rightarrow> Inl e | Inr u \<Rightarrow> Inr (search u))"

definition getForwardBody :: "runtime \<Rightarrow> request \<Rightarrow> string option" where
  "getForwardBody rt req =
     (if req_method req = ''GET'' \<or> req_method req = ''HEAD'' then None
      else case req_body req of
             JStr s \<Rightarrow> Some s
           | b \<Rightarrow> if \<not> truthy b then None else Some (JSON_stringify rt b))"

text \<open>A value inside a template literal: a string as it is, anything else converted.\<close>

definition interpolate :: "runtime \<Rightarrow> js_value \<Rightarrow> string" where
  "interpolate rt v = (case v of JStr t \<Rightarrow> t | _ \<Rightarrow> String_of rt v)"

definition proxyRequest :: "runtime \<Rightarrow> request \<Rightarrow> Env \<Rightarrow> string \<Rightarrow> unit promise" where
  "proxyRequest rt req env curasevPath w =
     (case assertBasicAuth rt req env of
        Inl e \<Rightarrow> (Inl e, w)
      | Inr _ \<Rightarrow>
          (case getToken rt env w of
             (Inl e, w1) \<Rightarrow> (Inl e, w1)
           | (Inr tok, w1) \<Rightarrow>
               (case buildSearch rt req of
                  Inl e \<Rightarrow> (Inl e, w1)
                | Inr query \<Rightarrow>
                    let downstreamHeaders =
                          [(''Authorization'', ''Bearer '' @ interpolate rt tok),
                           (''clientkey'', CURASEV_CLIENT_KEY env),
                           (''Content-Type'', ''application/json'')];
                        body = getForwardBody rt req
                    in (case fetchCurasev rt (curasevPath @ query)
                               \<lparr>fr_method = req_method req,
                                fr_headers = downstreamHeaders, fr_body = body\<rparr> w1 of
                          (Inl e, w2) \<Rightarrow> (Inl e, w2)
                        | (Inr response, w2) \<Rightarrow>
                            let contentType = (case content_type response of
                                                 None \<Rightarrow> ''application/json'' | Some ct \<Rightarrow> ct);
                                txt = body_text response
                            in (Inr (), w2\<lparr>res := res_send txt (res_setHeader ''Content-Type'' contentType
                                                   (res_status (status response) (res w2)))\<rparr>)))))"

subsection \<open>Route dispatcher: \<^verbatim>\<open>routes\<close>, \<^verbatim>\<open>resolveRoute\<close>, \<^verbatim>\<open>handler\<close>\<close>

type_synonym RouteHandler = "request \<Rightarrow> Env \<Rightarrow> unit promise"

text \<open>The handler registered for \<^verbatim>\<open>/api/auth/login\<close> (lines 136 to 140).\<close>

definition login :: "runtime \<Rightarrow> RouteHandler" where
  "login rt req env w =
     (case assertBasicAuth rt req env of
        Inl e \<Rightarrow> (Inl e, w)
      | Inr _ \<Rightarrow>
          (case getToken rt env w of
             (Inl e, w1) \<Rightarrow> (Inl e, w1)
           | (Inr tok, w1) \<Rightarrow>
               let (stamp, w2) = (case cachedToken w1 of
                                 Some c \<Rightarrow> (fetchedAt c, w1)
                               | None \<Rightarrow> Date_now rt w1)
               in (Inr (), w2\<lparr>res := res_json (JObj [(''token'', tok), (''fetchedAt'', JNum (of_int stamp))])
                                     (res_status 200 (res w2))\<rparr>)))"

text \<open>
  The table is looked up with the path of a parsed address, which starts with a slash:
  only its own two keys can be found, never a property inherited by the object.
\<close>

definition routes :: "runtime \<Rightarrow> string \<rightharpoonup> RouteHandler" where
  "routes rt =
     [''/api/auth/login'' \<mapsto> login rt,
      ''/api/report/download-history'' \<mapsto>
        (\<lambda>req env. proxyRequest rt req env ''/api/v1/report/get-all-download-history'')]"

definition resolveRoute :: "runtime \<Rightarrow> request \<Rightarrow> js_error + RouteHandler option" where
  "resolveRoute rt req =
     (case request_URL rt req of Inl e \<Rightarrow> Inl e | Inr u \<Rightarrow> Inr (routes rt (pathname u)))"

text \<open>
  The body of the \<^verbatim>\<open>catch\<close> block (lines 160 to 167). Every value thrown in this
  program is an \<^verbatim>\<open>Error\<close> with a message, so the default message is never used.
\<close>

definition error_envelope :: "js_error \<Rightarrow> vercel_response \<Rightarrow> vercel_response" where
  "error_envelope error r =
     (let status = (case err_status error of None \<Rightarrow> 500 | Some n \<Rightarrow> n);
          r1 = (if status = 401 then res_setHeader ''WWW-Authenticate'' ''Basic realm=\"Reporting\"'' r
                else r)
      in res_json (JObj [(''error'', JStr (message error)), (''details'', details error)])
           (res_status status r1))"

text \<open>
  The handler reads the configuration and resolves the route before it enters its
  \<^verbatim>\<open>try\<close> block: an error raised there rejects the promise the handler returns,
  and nothing is written to \<^verbatim>\<open>res\<close>. Inside the block every error is caught and
  turned into the JSON envelope.
\<close>

definition handler :: "runtime \<Rightarrow> (string \<rightharpoonup> string) \<Rightarrow> request \<Rightarrow> unit promise" where
  "handler rt penv req w =
     (case getEnv penv of
        Inl e \<Rightarrow> (Inl e, w)
      | Inr env \<Rightarrow>
          (case resolveRoute rt req of
             Inl e \<Rightarrow> (Inl e, w)
           | Inr None \<Rightarrow>
               (Inr (), w\<lparr>res := res_json (JObj [(''error'', JStr ''Not Found'')])
                                  (res_status 404 (res w))\<rparr>)
           | Inr (Some route) \<Rightarrow>
               (case route req env w of
                  (Inr _, w1) \<Rightarrow> (Inr (), w1)
                | (Inl error, w1) \<Rightarrow> (Inr (), w1\<lparr>res := error_envelope error (res w1)\<rparr>))))"

section \<open>Notions used in the statements\<close>

text \<open>The call that \<^const>\<open>refreshToken\<close> issues (lines 69 to 79).\<close>

definition auth_call :: "runtime \<Rightarrow> Env \<Rightarrow> fetch_call" where
  "auth_call rt env =
     (CURASEV_BASE_URL @ AUTH_ENDPOINT,
      \<lparr>fr_method = ''POST'',
       fr_headers = [(''Content-Type'', ''application/json'')],
       fr_body = Some (JSON_stringify rt
                   (JObj [(''p1'', JStr (CURASEV_USERNAME env)), (''p2'', JStr (CURASEV_PASSWORD env))]))\<rparr>)"

text \<open>The call that \<^const>\<open>proxyRequest\<close> issues with token \<open>tok\<close> (lines 97 to 109).\<close>

definition forward_call :: "runtime \<Rightarrow> request \<Rightarrow> Env \<Rightarrow> js_value \<Rightarrow> string \<Rightarrow> fetch_call" where
  "forward_call rt req env tok path =
     (CURASEV_BASE_URL @ path,
      \<lparr>fr_method = req_method req,
       fr_headers = [(''Authorization'', ''Bearer '' @ interpolate rt tok),
                     (''clientkey'', CURASEV_CLIENT_KEY env),
                     (''Content-Type'', ''application/json'')],
       fr_body = getForwardBody rt req\<rparr>)"

text \<open>
  The cached token cannot be used: there is none, or its age at the next reading of the
  clock has reached the time-to-live.
\<close>

definition stale :: "runtime \<Rightarrow> world \<Rightarrow> bool" where
  "stale rt w \<longleftrightarrow>
     (case cachedToken w of
        None \<Rightarrow> True
      | Some c \<Rightarrow> TOKEN_TTL_MS \<le> clock rt (ticks w) - fetchedAt c)"

text \<open>The world after the test of line 66: the clock was read if a token was cached.\<close>

definition after_check :: "world \<Rightarrow> world" where
  "after_check w = (case cachedToken w of None \<Rightarrow> w | Some c \<Rightarrow> w\<lparr>ticks := Suc (ticks w)\<rparr>)"

text \<open>The error that \<^const>\<open>fetchCurasev\<close> raises for a response that is not ok.\<close>

definition upstream_error :: "fetch_response \<Rightarrow> js_error" where
  "upstream_error r = \<lparr>message = ''Curasev API error: '' @ show_nat (status r),
                         err_status = Some (status r), details = JStr (body_text r)\<rparr>"

text \<open>
  The user and the password that the guard reads from a header value: the first and the
  second segment of the decoded text (lines 40 and 41).
\<close>

definition credentials :: "runtime \<Rightarrow> string \<Rightarrow> string option \<times> string option" where
  "credentials rt header =
     (let parts = split_colon (base64_utf8 rt (drop (length ''Basic '') header))
      in (elem_at parts 0, elem_at parts 1))"

text \<open>
  The two arguments of \<^verbatim>\<open>new URL\<close>: the request target as received, and the base
  built from the \<^verbatim>\<open>Host\<close> header.
\<close>

definition address :: "request \<Rightarrow> string" where
  "address req = (case req_url req of None \<Rightarrow> [] | Some t \<Rightarrow> t)"

definition address_base :: "request \<Rightarrow> string" where
  "address_base req =
     ''https://'' @ (case req_headers req ''host'' of None \<Rightarrow> ''localhost'' | Some h \<Rightarrow> h)"

text \<open>
  A valid configuration: each of the five required values is present and not empty.
  \<open>config\<close> is the configuration that such an environment holds.
\<close>

definition valid_config :: "(string \<rightharpoonup> string) \<Rightarrow> bool" where
  "valid_config penv \<longleftrightarrow> (\<forall>k \<in> set REQUIRED_ENV. \<exists>v. penv k = Some v \<and> v \<noteq> [])"

definition config :: "(string \<rightharpoonup> string) \<Rightarrow> Env" where
  "config penv =
     \<lparr>CURASEV_USERNAME = the (penv ''CURASEV_USERNAME''),
      CURASEV_PASSWORD = the (penv ''CURASEV_PASSWORD''),
      CURASEV_CLIENT_KEY = the (penv ''CURASEV_CLIENT_KEY''),
      BASIC_AUTH_USER = the (penv ''BASIC_AUTH_USER''),
      BASIC_AUTH_PASS = the (penv ''BASIC_AUTH_PASS'')\<rparr>"

section \<open>A concrete runtime\<close>

text \<open>
  One instance of the parameters, on which the model is evaluated below. Its library
  functions agree with JavaScript on the values used there: ASCII text, strings without
  control characters, whole numbers, objects without undefined members, and request
  targets that are an absolute path, free of dot segments and of characters that a path
  has encoded, with an optional query. No general statement depends on them.
\<close>

definition base64_alphabet :: string where
  "base64_alphabet = ''ABCDEFGHIJKLMNOPQRSTUVWXYZabcdefghijklmnopqrstuvwxyz0123456789+/''"

fun index_of :: "char \<Rightarrow> string \<Rightarrow> nat option" where
  "index_of c [] = None"
| "index_of c (x # xs) = (if c = x then Some 0 else map_option Suc (index_of c xs))"

text \<open>The six-bit values of the input up to the first padding sign; other characters are skipped.\<close>

fun sextets :: "string \<Rightarrow> nat list" where
  "sextets [] = []"
| "sextets (c # cs) =
     (if c = CHR ''='' then []
      else case index_of c base64_alphabet of None \<Rightarrow> sextets cs | Some v \<Rightarrow> v # sextets cs)"

fun octets :: "nat list \<Rightarrow> nat list" where
  "octets (a # b # c # d # r) =
     (a * 4 + b div 16) # ((b mod 16) * 16 + c div 4) # ((c mod 4) * 64 + d) # octets r"
| "octets [a, b, c] = [a * 4 + b div 16, (b mod 16) * 16 + c div 4]"
| "octets [a, b] = [a * 4 + b div 16]"
| "octets r = []"

definition demo_base64_utf8 :: "string \<Rightarrow> string" where
  "demo_base64_utf8 s = map char_of (octets (sextets s))"

text \<open>
  The search component of a parsed address has the characters of the query outside the
  printable ASCII range, and the space, the double quote, the angle brackets and the
  apostrophe, percent-encoded; it is empty when the query is empty. A target that starts
  with two slashes names a host first, and is refused when that host is empty. Targets
  of other forms are not used below.
\<close>

definition percent_encode :: "char \<Rightarrow> string" where
  "percent_encode c =
     [CHR ''%'', ''0123456789ABCDEF'' ! (of_char c div 16), ''0123456789ABCDEF'' ! (of_char c mod 16)]"

definition query_char :: "char \<Rightarrow> string" where
  "query_char c =
     (if c \<in> set [CHR '' '', CHR 0x22, CHR ''<'', CHR ''>'', CHR 0x27]
         \<or> (of_char c :: nat) < 33 \<or> 126 < (of_char c :: nat)
      then percent_encode c else [c])"

definition path_and_query :: "string \<Rightarrow> url" where
  "path_and_query t =
     (let s = takeWhile (\<lambda>c. c \<noteq> CHR ''#'') t;
          p = takeWhile (\<lambda>c. c \<noteq> CHR ''?'') s;
          q = drop 1 (dropWhile (\<lambda>c. c \<noteq> CHR ''?'') s)
      in \<lparr>pathname = (if p = [] then ''/'' else p),
          search = (if q = [] then [] else CHR ''?'' # concat (map query_char q))\<rparr>)"

definition demo_URL :: "string \<Rightarrow> string \<Rightarrow> url option" where
  "demo_URL input base =
     (if take 2 input = ''//'' then
        let rest = drop 2 input;
            host = takeWhile (\<lambda>c. c \<notin> set ''/?#'') rest
        in if host = [] then None else Some (path_and_query (drop (length host) rest))
      else if input = [] \<or> take 1 input = ''/'' then Some (path_and_query input)
      else None)"

definition quote :: "string \<Rightarrow> string" where
  "quote s =
     ''\"'' @ concat (map (\<lambda>c. if c = CHR ''\"'' \<or> c = CHR 0x5C then [CHR 0x5C, c] else [c]) s) @ ''\"''"

fun demo_stringify :: "js_value \<Rightarrow> string" where
  "demo_stringify JUndefined = ''null''"
| "demo_stringify JNull = ''null''"
| "demo_stringify (JBool b) = (if b then ''true'' else ''false'')"
| "demo_stringify (JNum q) = (if q < 0 then ''-'' else []) @ show_nat (nat \<lfloor>\<bar>q\<bar>\<rfloor>)"
| "demo_stringify (JStr s) = quote s"
| "demo_stringify (JArr xs) = ''['' @ join '','' (map demo_stringify xs) @ '']''"
| "demo_stringify (JObj kvs) =
     ''{'' @ join '','' (map (\<lambda>kv. quote (fst kv) @ '':'' @ demo_stringify (snd kv)) kvs) @ ''}''"
| "demo_stringify (JBuffer bs) = quote bs"

definition demo_String_of :: "js_value \<Rightarrow> string" where
  "demo_String_of v =
     (case v of JStr s \<Rightarrow> s | JUndefined \<Rightarrow> ''undefined'' | JObj kvs \<Rightarrow> ''[object Object]''
      | JBuffer bs \<Rightarrow> bs | _ \<Rightarrow> demo_stringify v)"

definition demo_clock :: "nat \<Rightarrow> int" where
  "demo_clock n = 1700000000000 + 1000 * int n"

definition demo_runtime :: "(nat \<Rightarrow> fetch_call \<Rightarrow> string + fetch_response) \<Rightarrow> runtime" where
  "demo_runtime service =
     \<lparr>JSON_stringify = demo_stringify, String_of = demo_String_of,
      base64_utf8 = demo_base64_utf8, URL_new = demo_URL,
      clock = demo_clock, upstream = service\<rparr>"

text \<open>Upstream services: what the authentication endpoint and every other endpoint answer.\<close>

definition json_response :: "nat \<Rightarrow> js_value \<Rightarrow> fetch_response" where
  "json_response code v =
     \<lparr>status = code, content_type = Some ''application/json; charset=utf-8'',
      body_text = demo_stringify v, body_json = Inr v\<rparr>"

definition text_response :: "nat \<Rightarrow> string \<Rightarrow> fetch_response" where
  "text_response code t =
     \<lparr>status = code, content_type = None, body_text = t,
      body_json = Inl ''invalid json response body''\<rparr>"

definition service :: "fetch_response \<Rightarrow> fetch_response \<Rightarrow> nat \<Rightarrow> fetch_call \<Rightarrow> string + fetch_response" where
  "service auth other n call =
     (if fst call = CURASEV_BASE_URL @ AUTH_ENDPOINT then Inr auth else Inr other)"

definition token_granted :: fetch_response where
  "token_granted =
     json_response 200
       (JObj [(''code'', JStr ''OK''),
              (''data'', JObj [(''status'', JStr ''active''),
                               (''patient'', JObj [(''id'', JNum 7), (''currentToken'', JStr ''tok-2''),
                                                   (''previousToken'', JStr ''tok-0'')])]),
              (''message'', JNull)])"

definition token_missing :: fetch_response where
  "token_missing = json_response 200 (JObj [(''data'', JObj [(''patient'', JObj [])])])"

definition history :: fetch_response where
  "history =
     json_response 200 (JObj [(''code'', JStr ''OK''), (''status'', JStr ''success''),
                              (''message'', JNull), (''data'', JArr [])])"

definition maintenance :: fetch_response where
  "maintenance = text_response 503 ''maintenance''"

definition login_page :: fetch_response where
  "login_page = text_response 200 ''<html>Sign in</html>''"

text \<open>Configuration, worlds and requests.\<close>

definition demo_penv :: "string \<rightharpoonup> string" where
  "demo_penv =
     [''CURASEV_USERNAME'' \<mapsto> ''svc'', ''CURASEV_PASSWORD'' \<mapsto> ''pw'',
      ''CURASEV_CLIENT_KEY'' \<mapsto> ''ck'', ''BASIC_AUTH_USER'' \<mapsto> ''admin'',
      ''BASIC_AUTH_PASS'' \<mapsto> ''s3cret'']"

definition demo_env :: Env where
  "demo_env =
     \<lparr>CURASEV_USERNAME = ''svc'', CURASEV_PASSWORD = ''pw'', CURASEV_CLIENT_KEY = ''ck'',
      BASIC_AUTH_USER = ''admin'', BASIC_AUTH_PASS = ''s3cret''\<rparr>"

definition cold :: world where
  "cold = \<lparr>cachedToken = None,
           res = \<lparr>statusCode = 200, res_headers = Map.empty, sent = None\<rparr>,
           ticks = 0, calls = []\<rparr>"

text \<open>A token fetched one minute before the first reading of the clock, and one fetched 25 minutes before it.\<close>

definition warm :: world where
  "warm = cold\<lparr>cachedToken := Some \<lparr>token = JStr ''tok-1'', fetchedAt = 1700000000000 - 60000\<rparr>\<rparr>"

definition expired :: world where
  "expired = cold\<lparr>cachedToken := Some \<lparr>token = JStr ''tok-1'', fetchedAt = 1700000000000 - 1500000\<rparr>\<rparr>"

text \<open>
  \<^verbatim>\<open>YWRtaW46czNjcmV0\<close> encodes \<^verbatim>\<open>admin:s3cret\<close>,
  \<^verbatim>\<open>YWRtaW46d3Jvbmc=\<close> encodes \<^verbatim>\<open>admin:wrong\<close>, and
  \<^verbatim>\<open>YWRtaW46czNjcmV0OmV4dHJh\<close> encodes \<^verbatim>\<open>admin:s3cret:extra\<close>.
\<close>

definition demo_request :: "string \<Rightarrow> string \<Rightarrow> string \<Rightarrow> request" where
  "demo_request m target encoded =
     \<lparr>req_method = m, req_url = Some target,
      req_headers = [''host'' \<mapsto> ''reports.example.com'', ''authorization'' \<mapsto> ''Basic '' @ encoded],
      req_body = JUndefined\<rparr>"

text \<open>A configuration whose inbound password contains a colon, and one that lacks the inbound password.\<close>

definition colon_env :: Env where
  "colon_env = demo_env\<lparr>BASIC_AUTH_PASS := ''s3:cret''\<rparr>"

definition incomplete_penv :: "string \<rightharpoonup> string" where
  "incomplete_penv = demo_penv(''BASIC_AUTH_PASS'' := None)"

text \<open>A request target whose query holds two apostrophes.\<close>

definition apostrophe_target :: string where
  "apostrophe_target = ''/api/report/download-history?q='' @ [CHR 0x27] @ ''x'' @ [CHR 0x27]"


section \<open>What each operation computes\<close>

subsection \<open>Upstream calls and the session manager\<close>

lemma fetchCurasev_eq:
  "fetchCurasev rt path init w =
     ((case upstream rt (length (calls w)) (CURASEV_BASE_URL @ path, init) of
         Inl failure \<Rightarrow> Inl (plain_error failure)
       | Inr r \<Rightarrow> if ok r then Inr r else Inl (upstream_error r)),
      w\<lparr>calls := calls w @ [(CURASEV_BASE_URL @ path, init)]\<rparr>)"
  by (simp add: fetchCurasev_def upstream_error_def Let_def split: sum.splits)

lemma refreshToken_eq:
  "refreshToken rt env w =
    (let w1 = w\<lparr>calls := calls w @ [auth_call rt env]\<rparr> in
     case upstream rt (length (calls w)) (auth_call rt env) of
       Inl failure \<Rightarrow> (Inl (plain_error failure), w1)
     | Inr r \<Rightarrow>
        (if \<not> ok r then (Inl (upstream_error r), w1)
         else (case body_json r of
            Inl failure \<Rightarrow> (Inl (plain_error failure), w1)
          | Inr j \<Rightarrow>
             (if \<not> truthy (currentToken j) then
                (Inl \<lparr>message = ''Curasev authentication failed: missing token'',
                      err_status = Some 502, details = j\<rparr>, w1)
              else (Inr (currentToken j),
                    w1\<lparr>ticks := Suc (ticks w),
                       cachedToken := Some \<lparr>token = currentToken j,
                                             fetchedAt = clock rt (ticks w)\<rparr>\<rparr>)))))"
  by (simp add: refreshToken_def fetchCurasev_eq auth_call_def Let_def Date_now_def
      split: sum.splits)

lemma after_check_simps [simp]:
  "calls (after_check w) = calls w"
  "cachedToken (after_check w) = cachedToken w"
  "res (after_check w) = res w"
  by (simp_all add: after_check_def split: option.splits)

lemma getToken_stale: "stale rt w \<Longrightarrow> getToken rt env w = refreshToken rt env (after_check w)"
  by (auto simp: stale_def getToken_def after_check_def Date_now_def split: option.splits)

lemma refreshToken_calls: "calls (snd (refreshToken rt env w)) = calls w @ [auth_call rt env]"
  by (simp add: refreshToken_eq Let_def split: sum.splits)

lemma refreshToken_non_ok:
  "upstream rt (length (calls w)) (auth_call rt env) = Inr r \<Longrightarrow> \<not> ok r \<Longrightarrow>
   fst (refreshToken rt env w) = Inl (upstream_error r)"
  by (simp add: refreshToken_eq Let_def)

lemma refreshToken_Inr:
  "refreshToken rt env w = (Inr t, w1) \<Longrightarrow>
   \<exists>r j. upstream rt (length (calls w)) (auth_call rt env) = Inr r \<and> ok r \<and> body_json r = Inr j \<and>
         truthy (currentToken j) \<and> t = currentToken j \<and>
         cachedToken w1 = Some \<lparr>token = t, fetchedAt = clock rt (ticks w)\<rparr>"
  by (auto simp: refreshToken_eq Let_def split: sum.splits if_splits)

lemma getToken_calls:
  "calls (snd (getToken rt env w)) = (if stale rt w then calls w @ [auth_call rt env] else calls w)"
  by (auto simp: getToken_def stale_def Date_now_def refreshToken_calls split: option.splits)

lemma getToken_non_ok:
  assumes "stale rt w" "upstream rt (length (calls w)) (auth_call rt env) = Inr r" "\<not> ok r"
  shows "fst (getToken rt env w) = Inl (upstream_error r)"
  using assms by (simp add: getToken_stale refreshToken_non_ok)

lemma getToken_Inr_cached:
  assumes "getToken rt env w = (Inr t, w1)"
  shows "cachedToken w1 \<noteq> None"
  using assms refreshToken_Inr[of rt env _ t w1]
  by (fastforce simp: getToken_def Date_now_def split: option.splits if_splits)

lemma getToken_non_ok_k:
  assumes "getToken rt env w = (x, w1)" "length (calls w) \<le> k" "k < length (calls w1)"
    "upstream rt k (calls w1 ! k) = Inr r" "\<not> ok r"
  shows "x = Inl (upstream_error r)"
proof -
  have c: "calls w1 = (if stale rt w then calls w @ [auth_call rt env] else calls w)"
    using getToken_calls[of rt env w] assms(1) by simp
  with assms(2,3) have st: "stale rt w" and k: "k = length (calls w)"
    by (auto split: if_splits)
  from c st k assms(4) have "upstream rt (length (calls w)) (auth_call rt env) = Inr r" by simp
  from getToken_non_ok[OF st this assms(5)] assms(1) show ?thesis by simp
qed

lemma getToken_Inr_all_ok:
  assumes "getToken rt env w = (Inr t, w1)" "length (calls w) \<le> k" "k < length (calls w1)"
    "upstream rt k (calls w1 ! k) = Inr r"
  shows "ok r"
  using getToken_non_ok_k[OF assms] by auto

lemma getToken_fresh:
  "cachedToken w = Some c \<Longrightarrow> clock rt (ticks w) - fetchedAt c < TOKEN_TTL_MS \<Longrightarrow>
   getToken rt env w = (Inr (token c), w\<lparr>ticks := Suc (ticks w)\<rparr>)"
  by (simp add: getToken_def Date_now_def)

lemma refreshToken_res: "res (snd (refreshToken rt env w)) = res w"
  by (simp add: refreshToken_eq Let_def split: sum.splits)

lemma getToken_res: "res (snd (getToken rt env w)) = res w"
  by (simp add: getToken_def Date_now_def refreshToken_res split: option.splits prod.splits)

lemma get_prop_truthy:
  "truthy (get_prop k v) \<Longrightarrow> \<exists>members. v = JObj members \<and> map_of members k = Some (get_prop k v)"
  by (cases v) (auto split: option.splits)

lemma currentToken_member:
  "map_of members ''data'' = Some (JObj d) \<Longrightarrow> map_of d ''patient'' = Some (JObj p) \<Longrightarrow>
   map_of p ''currentToken'' = Some t \<Longrightarrow> currentToken (JObj members) = t"
  by (simp add: currentToken_def)

lemma currentToken_truthy:
  assumes "truthy (currentToken j)"
  shows "\<exists>members d p. j = JObj members \<and> map_of members ''data'' = Some (JObj d) \<and>
           map_of d ''patient'' = Some (JObj p) \<and> map_of p ''currentToken'' = Some (currentToken j)"
proof -
  let ?d = "get_prop ''data'' j"
  let ?p = "get_prop ''patient'' ?d"
  have ct: "currentToken j = get_prop ''currentToken'' ?p"
    by (simp add: currentToken_def)
  from assms have "truthy (get_prop ''currentToken'' ?p)"
    unfolding ct .
  from get_prop_truthy[OF this]
  obtain p where p: "?p = JObj p" and t: "map_of p ''currentToken'' = Some (get_prop ''currentToken'' ?p)"
    by blast
  have "truthy ?p" unfolding p by simp
  from get_prop_truthy[OF this]
  obtain d where d: "?d = JObj d" and dp: "map_of d ''patient'' = Some ?p"
    by blast
  have "truthy ?d" unfolding d by simp
  from get_prop_truthy[OF this]
  obtain members where m: "j = JObj members" and md: "map_of members ''data'' = Some ?d"
    by blast
  from md d have 1: "map_of members ''data'' = Some (JObj d)" by simp
  from dp p have 2: "map_of d ''patient'' = Some (JObj p)" by simp
  from t ct have 3: "map_of p ''currentToken'' = Some (currentToken j)" by simp
  from m 1 2 3 show ?thesis by blast
qed

subsection \<open>The credential guard\<close>

lemma split_colon_nonempty: "split_colon s \<noteq> []"
  by (induction s) (auto split: list.splits)

lemma split_colon_plain: "CHR '':'' \<notin> set a \<Longrightarrow> split_colon a = [a]"
  by (induction a) auto

lemma split_colon_append:
  "CHR '':'' \<notin> set a \<Longrightarrow> split_colon (a @ CHR '':'' # rest) = a # split_colon rest"
  by (induction a) (auto split: list.splits)

lemma split_colon_segments: "seg \<in> set (split_colon s) \<Longrightarrow> CHR '':'' \<notin> set seg"
proof (induction s arbitrary: seg)
  case Nil
  then show ?case by simp
next
  case (Cons c cs)
  then show ?case
    by (cases "split_colon cs") (auto simp: split_colon_nonempty split: if_splits)
qed

lemma elem_at_set: "elem_at xs i = Some x \<Longrightarrow> x \<in> set xs"
  by (auto simp: elem_at_def split: if_splits)

lemma assertBasicAuth_iff:
  "assertBasicAuth rt req env = Inr () \<longleftrightarrow>
     (\<exists>h. req_headers req ''authorization'' = Some h \<and> startsWith ''Basic '' h \<and>
          credentials rt h = (Some (BASIC_AUTH_USER env), Some (BASIC_AUTH_PASS env)))"
  by (auto simp: assertBasicAuth_def credentials_def Let_def split: option.splits)

lemma join_Cons: "join sep (x # xs) = (if xs = [] then x else x @ sep @ join sep xs)"
  by (cases xs) simp_all

lemma join_split_colon: "join '':'' (split_colon s) = s"
proof (induction s)
  case Nil
  then show ?case by simp
next
  case (Cons c cs)
  then show ?case
    by (cases "split_colon cs") (auto simp: join_Cons split_colon_nonempty split: if_splits)
qed

lemma elem_at_two:
  "elem_at xs 0 = Some a \<Longrightarrow> elem_at xs (Suc 0) = Some b \<Longrightarrow> \<exists>rest. xs = a # b # rest"
  by (cases xs; cases "tl xs") (auto simp: elem_at_def split: if_splits)

text \<open>What the guard accepts, in terms of the decoded text.\<close>

lemma guard_accepts_text:
  assumes "assertBasicAuth rt req env = Inr ()"
  shows "\<exists>payload. req_headers req ''authorization'' = Some (''Basic '' @ payload) \<and>
           (base64_utf8 rt payload = BASIC_AUTH_USER env @ '':'' @ BASIC_AUTH_PASS env \<or>
            (\<exists>extra. base64_utf8 rt payload =
                BASIC_AUTH_USER env @ '':'' @ BASIC_AUTH_PASS env @ '':'' @ extra))"
proof -
  from assms obtain h where h: "req_headers req ''authorization'' = Some h"
    and sw: "startsWith ''Basic '' h"
    and cr: "credentials rt h = (Some (BASIC_AUTH_USER env), Some (BASIC_AUTH_PASS env))"
    by (auto simp: assertBasicAuth_iff)
  let ?payload = "drop (length ''Basic '') h"
  from sw have hp: "h = ''Basic '' @ ?payload"
    by (metis append_take_drop_id startsWith_def)
  from cr obtain rest where
    parts: "split_colon (base64_utf8 rt ?payload) = BASIC_AUTH_USER env # BASIC_AUTH_PASS env # rest"
    using elem_at_two[of "split_colon (base64_utf8 rt ?payload)"]
    by (auto simp: credentials_def Let_def)
  have "base64_utf8 rt ?payload = join '':'' (split_colon (base64_utf8 rt ?payload))"
    by (simp add: join_split_colon)
  then have "base64_utf8 rt ?payload =
      (if rest = [] then BASIC_AUTH_USER env @ '':'' @ BASIC_AUTH_PASS env
       else BASIC_AUTH_USER env @ '':'' @ BASIC_AUTH_PASS env @ '':'' @ join '':'' rest)"
    unfolding parts by (simp add: join_Cons)
  with h hp show ?thesis
    by (metis (full_types))
qed

lemma guard_cases:
  "assertBasicAuth rt req env = Inr () \<or> assertBasicAuth rt req env = Inl throwUnauthorized"
  by (simp add: assertBasicAuth_def Let_def split: option.splits)

subsection \<open>Configuration and address\<close>

lemma request_URL_eq:
  "request_URL rt req =
     (case URL_new rt (address req) (address_base req) of
        None \<Rightarrow> Inl (plain_error ''Invalid URL'') | Some u \<Rightarrow> Inr u)"
  by (simp add: request_URL_def address_def address_base_def)

lemma issue_iff: "issue penv k \<longleftrightarrow> penv k = None \<or> penv k = Some []"
  by (simp add: issue_def split: option.splits)

lemma issues_nonempty_iff:
  "issues penv \<noteq> [] \<longleftrightarrow> (\<exists>k \<in> set REQUIRED_ENV. penv k = None \<or> penv k = Some [])"
  by (simp add: issues_def filter_empty_conv issue_iff)

lemma getEnv_valid: "valid_config penv \<Longrightarrow> getEnv penv = Inr (config penv)"
proof -
  assume "valid_config penv"
  then have "issues penv = []"
    by (auto simp: issues_def filter_empty_conv issue_iff valid_config_def)
  then show ?thesis by (simp add: getEnv_def config_def)
qed

lemma config_guard_pair:
  "penv ''BASIC_AUTH_USER'' = Some user \<Longrightarrow> penv ''BASIC_AUTH_PASS'' = Some pass \<Longrightarrow>
   BASIC_AUTH_USER (config penv) = user \<and> BASIC_AUTH_PASS (config penv) = pass"
  by (simp add: config_def)

subsection \<open>The routes and the dispatcher\<close>

lemma routes_eq:
  "routes rt p =
     (if p = ''/api/report/download-history''
      then Some (\<lambda>req env. proxyRequest rt req env ''/api/v1/report/get-all-download-history'')
      else if p = ''/api/auth/login'' then Some (login rt) else None)"
  by (simp add: routes_def)

lemma handler_route:
  assumes "getEnv penv = Inr env" "request_URL rt req = Inr u" "routes rt (pathname u) = Some route"
  shows "handler rt penv req w =
           (case route req env w of
              (Inr _, w1) \<Rightarrow> (Inr (), w1)
            | (Inl e, w1) \<Rightarrow> (Inr (), w1\<lparr>res := error_envelope e (res w1)\<rparr>))"
  using assms by (simp add: handler_def resolveRoute_def split: prod.splits sum.splits)

lemma handler_none:
  assumes "getEnv penv = Inr env" "request_URL rt req = Inr u" "routes rt (pathname u) = None"
  shows "handler rt penv req w =
           (Inr (), w\<lparr>res := res_json (JObj [(''error'', JStr ''Not Found'')]) (res_status 404 (res w))\<rparr>)"
  using assms by (simp add: handler_def resolveRoute_def)

lemma proxyRequest_guard:
  "assertBasicAuth rt req env = Inl e \<Longrightarrow> proxyRequest rt req env path w = (Inl e, w)"
  by (simp add: proxyRequest_def)

lemma login_guard:
  "assertBasicAuth rt req env = Inl e \<Longrightarrow> login rt req env w = (Inl e, w)"
  by (simp add: login_def)

lemma address_authorization:
  "address (req\<lparr>req_headers := (req_headers req)(''authorization'' := h)\<rparr>) = address req"
  "address_base (req\<lparr>req_headers := (req_headers req)(''authorization'' := h)\<rparr>) = address_base req"
  by (simp_all add: address_def address_base_def)

lemma request_URL_authorization:
  "request_URL rt (req\<lparr>req_headers := (req_headers req)(''authorization'' := h)\<rparr>) = request_URL rt req"
  by (simp add: request_URL_def)

lemma proxyRequest_eq:
  assumes "assertBasicAuth rt req env = Inr ()" "request_URL rt req = Inr u"
    "getToken rt env w = (Inr tok, w1)"
  shows "proxyRequest rt req env path w =
     (let call = forward_call rt req env tok (path @ search u);
          w2 = w1\<lparr>calls := calls w1 @ [call]\<rparr>
      in case upstream rt (length (calls w1)) call of
           Inl failure \<Rightarrow> (Inl (plain_error failure), w2)
         | Inr r \<Rightarrow>
             (if ok r then
               (Inr (), w2\<lparr>res := \<lparr>statusCode = status r,
                   res_headers = (res_headers (res w1))(''Content-Type'' \<mapsto>
                      (case content_type r of None \<Rightarrow> ''application/json'' | Some ct \<Rightarrow> ct)),
                   sent = Some (Text (body_text r))\<rparr>\<rparr>)
             else (Inl (upstream_error r), w2)))"
  using assms
  by (simp add: proxyRequest_def buildSearch_def fetchCurasev_eq forward_call_def Let_def
      res_send_def res_setHeader_def res_status_def split: sum.splits)

lemma proxyRequest_token:
  "assertBasicAuth rt req env = Inr () \<Longrightarrow> getToken rt env w = (Inl e, w1) \<Longrightarrow>
   proxyRequest rt req env path w = (Inl e, w1)"
  by (simp add: proxyRequest_def)

lemma proxyRequest_url:
  "assertBasicAuth rt req env = Inr () \<Longrightarrow> getToken rt env w = (Inr t, w1) \<Longrightarrow>
   request_URL rt req = Inl e \<Longrightarrow>
   proxyRequest rt req env path w = (Inl e, w1)"
  by (simp add: proxyRequest_def buildSearch_def)

lemma login_token:
  "assertBasicAuth rt req env = Inr () \<Longrightarrow> getToken rt env w = (Inl e, w1) \<Longrightarrow>
   login rt req env w = (Inl e, w1)"
  by (simp add: login_def)

lemma login_eq:
  assumes "assertBasicAuth rt req env = Inr ()" "getToken rt env w = (Inr tok, w1)"
  shows "\<exists>c. cachedToken w1 = Some c \<and> login rt req env w =
     (Inr (), w1\<lparr>res := \<lparr>statusCode = 200, res_headers = res_headers (res w1),
         sent = Some (Json (JObj [(''token'', tok), (''fetchedAt'', JNum (of_int (fetchedAt c)))]))\<rparr>\<rparr>)"
  using assms getToken_Inr_cached[OF assms(2)]
  by (auto simp: login_def res_json_def res_status_def split: option.splits)

lemma login_Inr_status:
  assumes "login rt req env w = (Inr v, w1)"
  shows "statusCode (res w1) = 200"
proof -
  from assms have g: "assertBasicAuth rt req env = Inr ()"
    using guard_cases[of rt req env] by (auto simp: login_guard)
  obtain y w' where gt: "getToken rt env w = (y, w')" by (cases "getToken rt env w")
  with g assms obtain t where "y = Inr t" by (cases y) (auto simp: login_token)
  with gt login_eq[OF g, of w t w'] assms show ?thesis by auto
qed

lemma proxyRequest_Inr_status:
  assumes "proxyRequest rt req env path w = (Inr v, w1)"
  shows "200 \<le> statusCode (res w1) \<and> statusCode (res w1) < 300"
proof -
  from assms have g: "assertBasicAuth rt req env = Inr ()"
    using guard_cases[of rt req env] by (auto simp: proxyRequest_guard)
  obtain y w' where gt: "getToken rt env w = (y, w')" by (cases "getToken rt env w")
  with g assms obtain t where "y = Inr t" by (cases y) (auto simp: proxyRequest_token)
  with gt have gt': "getToken rt env w = (Inr t, w')" by simp
  from g gt' assms obtain u where u: "request_URL rt req = Inr u"
    by (cases "request_URL rt req") (auto simp: proxyRequest_url)
  from proxyRequest_eq[OF g u gt', of path] assms show ?thesis
    by (auto simp: Let_def ok_def split: sum.splits if_splits)
qed

lemma error_envelope_eq:
  "error_envelope e r =
     \<lparr>statusCode = (case err_status e of None \<Rightarrow> 500 | Some n \<Rightarrow> n),
      res_headers = (if (case err_status e of None \<Rightarrow> 500 | Some n \<Rightarrow> n) = 401
                     then (res_headers r)(''WWW-Authenticate'' \<mapsto> ''Basic realm=\"Reporting\"'')
                     else res_headers r),
      sent = Some (Json (JObj [(''error'', JStr (message e)), (''details'', details e)]))\<rparr>"
  by (simp add: error_envelope_def res_json_def res_status_def res_setHeader_def Let_def)

lemma handler_401_challenge:
  assumes "fst (handler rt penv req w) = Inr ()"
    and "statusCode (res (snd (handler rt penv req w))) = 401"
  shows "res_headers (res (snd (handler rt penv req w))) ''WWW-Authenticate'' =
           Some ''Basic realm=\"Reporting\"''"
proof -
  obtain env where env: "getEnv penv = Inr env"
    using assms(1) by (cases "getEnv penv") (auto simp: handler_def)
  obtain u where u: "request_URL rt req = Inr u"
    using assms(1) env by (cases "request_URL rt req") (auto simp: handler_def resolveRoute_def)
  obtain route where route: "routes rt (pathname u) = Some route"
    using assms(2) env u by (cases "routes rt (pathname u)") (auto simp: handler_none res_json_def res_status_def)
  obtain y w' where run: "route req env w = (y, w')" by (cases "route req env w")
  show ?thesis
  proof (cases y)
    case (Inl e)
    with handler_route[OF env u route, of w] run assms(2) show ?thesis
      by (auto simp: error_envelope_eq split: option.splits if_splits)
  next
    case (Inr v)
    with route run have "200 \<le> statusCode (res w') \<and> statusCode (res w') < 300"
      using login_Inr_status[of rt req env w v w'] proxyRequest_Inr_status[of rt req env _ w v w']
      by (auto simp: routes_eq split: if_splits)
    with handler_route[OF env u route, of w] run Inr assms(2) show ?thesis by simp
  qed
qed

lemma handler_forward_ok:
  assumes "getEnv penv = Inr env"
    and "request_URL rt req = Inr u"
    and "pathname u = ''/api/report/download-history''"
    and "assertBasicAuth rt req env = Inr ()"
    and "getToken rt env w = (Inr tok, w1)"
    and "upstream rt (length (calls w1))
           (forward_call rt req env tok (''/api/v1/report/get-all-download-history'' @ search u)) = Inr r"
    and "ok r"
  shows "handler rt penv req w =
           (Inr (),
            w1\<lparr>calls := calls w1 @
                   [forward_call rt req env tok (''/api/v1/report/get-all-download-history'' @ search u)],
               res := \<lparr>statusCode = status r,
                        res_headers = (res_headers (res w))(''Content-Type'' \<mapsto>
                          (case content_type r of None \<Rightarrow> ''application/json'' | Some ct \<Rightarrow> ct)),
                        sent = Some (Text (body_text r))\<rparr>\<rparr>)"
proof -
  have route: "routes rt (pathname u) =
      Some (\<lambda>req env. proxyRequest rt req env ''/api/v1/report/get-all-download-history'')"
    using assms(3) by (simp add: routes_eq)
  have r: "res w1 = res w"
    using getToken_res[of rt env w] assms(5) by simp
  show ?thesis
    using handler_route[OF assms(1,2) route, of w]
      proxyRequest_eq[OF assms(4,2,5), of "''/api/v1/report/get-all-download-history''"] assms(6,7) r
    by (simp add: Let_def)
qed

text \<open>
  Every upstream call of an invocation that is answered with a status outside 200 to 299
  ends the invocation with the error built from that response.
\<close>

lemma login_non_ok_k:
  assumes "login rt req env w = (x, w1)" "length (calls w) \<le> k" "k < length (calls w1)"
    "upstream rt k (calls w1 ! k) = Inr r" "\<not> ok r"
  shows "x = Inl (upstream_error r)"
proof (cases "assertBasicAuth rt req env")
  case (Inl e)
  with assms(1-3) show ?thesis by (simp add: login_guard)
next
  case (Inr v)
  then have g: "assertBasicAuth rt req env = Inr ()" by simp
  obtain y w' where gt: "getToken rt env w = (y, w')" by (cases "getToken rt env w")
  show ?thesis
  proof (cases y)
    case (Inl e)
    with g gt assms(1) have "x = Inl e" "w1 = w'" by (simp_all add: login_token)
    with getToken_non_ok_k[OF gt] Inl assms show ?thesis by simp
  next
    case (Inr t)
    with gt have gt': "getToken rt env w = (Inr t, w')" by simp
    from login_eq[OF g gt'] assms(1) have cw: "calls w1 = calls w'" by auto
    from getToken_Inr_all_ok[OF gt' assms(2)] cw assms(3,4,5) show ?thesis by simp
  qed
qed

lemma proxyRequest_non_ok_k:
  assumes "proxyRequest rt req env path w = (x, w1)" "length (calls w) \<le> k" "k < length (calls w1)"
    "upstream rt k (calls w1 ! k) = Inr r" "\<not> ok r"
  shows "x = Inl (upstream_error r)"
proof (cases "assertBasicAuth rt req env")
  case (Inl e)
  with assms(1-3) show ?thesis by (simp add: proxyRequest_guard)
next
  case (Inr v)
  then have g: "assertBasicAuth rt req env = Inr ()" by simp
  obtain y w' where gt: "getToken rt env w = (y, w')" by (cases "getToken rt env w")
  show ?thesis
  proof (cases y)
    case (Inl e)
    with g gt assms(1) have "x = Inl e" "w1 = w'" by (simp_all add: proxyRequest_token)
    with getToken_non_ok_k[OF gt] Inl assms show ?thesis by simp
  next
    case (Inr t)
    with gt have gt': "getToken rt env w = (Inr t, w')" by simp
    show ?thesis
    proof (cases "request_URL rt req")
      case (Inl e)
      with g gt' assms(1) have "w1 = w'" by (simp add: proxyRequest_url)
      with getToken_Inr_all_ok[OF gt' assms(2)] assms(3,4,5) show ?thesis by simp
    next
      case (Inr a)
      let ?call = "forward_call rt req env t (path @ search a)"
      from proxyRequest_eq[OF g Inr gt', of path] assms(1)
      have cw: "calls w1 = calls w' @ [?call]"
        and out: "\<And>r'. upstream rt (length (calls w')) ?call = Inr r' \<Longrightarrow> \<not> ok r' \<Longrightarrow>
                      x = Inl (upstream_error r')"
        by (auto simp: Let_def split: sum.splits if_splits)
      show ?thesis
      proof (cases "k < length (calls w')")
        case True
        with cw assms(4) have "upstream rt k (calls w' ! k) = Inr r" by (simp add: nth_append)
        from getToken_Inr_all_ok[OF gt' assms(2) True this] assms(5) show ?thesis by simp
      next
        case False
        with cw assms(3) have "k = length (calls w')" by simp
        with cw assms(4) have "upstream rt (length (calls w')) ?call = Inr r" by simp
        from out[OF this assms(5)] show ?thesis .
      qed
    qed
  qed
qed

lemma handler_non_ok_k:
  assumes "handler rt penv req w = (x, w1)" "length (calls w) \<le> k" "k < length (calls w1)"
    "upstream rt k (calls w1 ! k) = Inr r" "\<not> ok r"
  shows "x = Inr () \<and> statusCode (res w1) = status r \<and>
         sent (res w1) = Some (Json (JObj [(''error'', JStr (''Curasev API error: '' @ show_nat (status r))),
                                         (''details'', JStr (body_text r))]))"
proof -
  have ne: "calls w1 \<noteq> calls w" using assms(2,3) by auto
  obtain env where env: "getEnv penv = Inr env"
    using assms(1) ne by (cases "getEnv penv") (auto simp: handler_def)
  obtain u where u: "request_URL rt req = Inr u"
    using assms(1) ne env by (cases "request_URL rt req") (auto simp: handler_def resolveRoute_def)
  obtain route where route: "routes rt (pathname u) = Some route"
    using assms(1) ne env u by (cases "routes rt (pathname u)") (auto simp: handler_none)
  obtain y w' where run: "route req env w = (y, w')" by (cases "route req env w")
  have cw: "calls w1 = calls w'"
    using handler_route[OF env u route, of w] run assms(1) by (auto split: sum.splits)
  have "y = Inl (upstream_error r)"
    using route run login_non_ok_k[of rt req env w _ w' k r]
      proxyRequest_non_ok_k[of rt req env _ w _ w' k r] assms(2-5) cw
    by (auto simp: routes_eq split: if_splits)
  with handler_route[OF env u route, of w] run assms(1) show ?thesis
    by (auto simp: error_envelope_eq upstream_error_def)
qed

subsection \<open>The concrete runtime, evaluated\<close>

lemma demo_getEnv: "getEnv demo_penv = Inr demo_env"
  by (simp add: getEnv_def issues_def issue_def REQUIRED_ENV_def demo_penv_def demo_env_def)

lemma demo_valid_config: "valid_config demo_penv \<and> config demo_penv = demo_env"
  by (simp add: valid_config_def config_def REQUIRED_ENV_def demo_penv_def demo_env_def)

lemma demo_address:
  "address (demo_request m target enc) = target"
  "address_base (demo_request m target enc) = ''https://reports.example.com''"
  by (simp_all add: address_def address_base_def demo_request_def)

lemma demo_download_URL_new:
  "URL_new (demo_runtime s) ''/api/report/download-history?dayDiff=60'' ''https://reports.example.com'' =
     Some \<lparr>pathname = ''/api/report/download-history'', search = ''?dayDiff=60''\<rparr>"
proof -
  have "demo_URL ''/api/report/download-history?dayDiff=60'' ''https://reports.example.com'' =
     Some \<lparr>pathname = ''/api/report/download-history'', search = ''?dayDiff=60''\<rparr>"
    by code_simp
  then show ?thesis by (simp add: demo_runtime_def)
qed

lemma demo_download_URL:
  "request_URL (demo_runtime s) (demo_request m ''/api/report/download-history?dayDiff=60'' enc) =
     Inr \<lparr>pathname = ''/api/report/download-history'', search = ''?dayDiff=60''\<rparr>"
  by (simp add: request_URL_eq demo_address demo_download_URL_new)

lemma demo_login_URL:
  "request_URL (demo_runtime s) (demo_request m ''/api/auth/login'' enc) =
     Inr \<lparr>pathname = ''/api/auth/login'', search = []\<rparr>"
proof -
  have "demo_URL ''/api/auth/login'' ''https://reports.example.com'' =
          Some \<lparr>pathname = ''/api/auth/login'', search = []\<rparr>"
    by code_simp
  then show ?thesis
    by (simp add: request_URL_eq demo_address demo_runtime_def)
qed

lemma demo_guard_passes:
  "assertBasicAuth (demo_runtime s) (demo_request m target ''YWRtaW46czNjcmV0'') demo_env = Inr ()"
proof -
  have "demo_base64_utf8 ''YWRtaW46czNjcmV0'' = ''admin:s3cret''" by code_simp
  then show ?thesis
    by (simp add: assertBasicAuth_def demo_request_def demo_runtime_def demo_env_def
        startsWith_def elem_at_def Let_def)
qed

lemma demo_getToken_warm:
  "getToken (demo_runtime s) demo_env warm = (Inr (JStr ''tok-1''), warm\<lparr>ticks := Suc 0\<rparr>)"
proof -
  have "getToken (demo_runtime s) demo_env warm =
          (Inr (token \<lparr>token = JStr ''tok-1'', fetchedAt = 1700000000000 - 60000\<rparr>),
           warm\<lparr>ticks := Suc (ticks warm)\<rparr>)"
    by (rule getToken_fresh)
       (simp_all add: warm_def cold_def demo_runtime_def demo_clock_def TOKEN_TTL_MS_def)
  then show ?thesis by (simp add: warm_def cold_def)
qed

lemma demo_history_down:
  "handler (demo_runtime (service token_granted maintenance)) demo_penv
     (demo_request ''GET'' ''/api/report/download-history?dayDiff=60'' ''YWRtaW46czNjcmV0'') warm =
   (Inr (),
    warm\<lparr>ticks := Suc 0,
         calls := [forward_call (demo_runtime (service token_granted maintenance))
                     (demo_request ''GET'' ''/api/report/download-history?dayDiff=60'' ''YWRtaW46czNjcmV0'')
                     demo_env (JStr ''tok-1'')
                     ''/api/v1/report/get-all-download-history?dayDiff=60''],
         res := error_envelope (upstream_error maintenance) (res warm)\<rparr>)"
proof -
  let ?rt = "demo_runtime (service token_granted maintenance)"
  let ?req = "demo_request ''GET'' ''/api/report/download-history?dayDiff=60'' ''YWRtaW46czNjcmV0''"
  have route: "routes ?rt (pathname \<lparr>pathname = ''/api/report/download-history'', search = ''?dayDiff=60''\<rparr>) =
      Some (\<lambda>req env. proxyRequest ?rt req env ''/api/v1/report/get-all-download-history'')"
    by (simp add: routes_eq)
  have up: "upstream ?rt 0 (forward_call ?rt ?req demo_env (JStr ''tok-1'')
               ''/api/v1/report/get-all-download-history?dayDiff=60'') = Inr maintenance"
    by (simp add: demo_runtime_def service_def forward_call_def CURASEV_BASE_URL_def AUTH_ENDPOINT_def)
  have nok: "\<not> ok maintenance"
    by (simp add: ok_def maintenance_def text_response_def)
  show ?thesis
    using handler_route[OF demo_getEnv demo_download_URL route, where w = warm]
      proxyRequest_eq[OF
        demo_guard_passes[of "service token_granted maintenance" "''GET''"
          "''/api/report/download-history?dayDiff=60''"]
        demo_download_URL[of "service token_granted maintenance" "''GET''" "''YWRtaW46czNjcmV0''"]
        demo_getToken_warm[of "service token_granted maintenance"],
        where path = "''/api/v1/report/get-all-download-history''"]
      up nok
    by (simp add: Let_def warm_def cold_def)
qed

lemma demo_login_accepted:
  assumes "assertBasicAuth (demo_runtime s) (demo_request m ''/api/auth/login'' enc) demo_env = Inr ()"
  shows "handler (demo_runtime s) demo_penv (demo_request m ''/api/auth/login'' enc) warm =
           (Inr (), warm\<lparr>ticks := Suc 0,
              res := \<lparr>statusCode = 200, res_headers = Map.empty,
                      sent = Some (Json (JObj [(''token'', JStr ''tok-1''),
                                               (''fetchedAt'', JNum 1699999940000)]))\<rparr>\<rparr>)"
proof -
  have route: "routes (demo_runtime s) (pathname \<lparr>pathname = ''/api/auth/login'', search = []\<rparr>) =
                 Some (login (demo_runtime s))"
    by (simp add: routes_eq)
  from login_eq[OF assms demo_getToken_warm]
  have "login (demo_runtime s) (demo_request m ''/api/auth/login'' enc) demo_env warm =
          (Inr (), warm\<lparr>ticks := Suc 0,
              res := \<lparr>statusCode = 200, res_headers = Map.empty,
                      sent = Some (Json (JObj [(''token'', JStr ''tok-1''),
                                               (''fetchedAt'', JNum 1699999940000)]))\<rparr>\<rparr>)"
    by (auto simp: warm_def cold_def)
  with handler_route[OF demo_getEnv demo_login_URL route, where w = warm]
  show ?thesis by simp
qed

lemma demo_apostrophe_URL_new:
  "URL_new (demo_runtime s) apostrophe_target ''https://reports.example.com'' =
     Some \<lparr>pathname = ''/api/report/download-history'', search = ''?q=%27x%27''\<rparr>"
proof -
  have "demo_URL apostrophe_target ''https://reports.example.com'' =
     Some \<lparr>pathname = ''/api/report/download-history'', search = ''?q=%27x%27''\<rparr>"
    by code_simp
  then show ?thesis by (simp add: demo_runtime_def)
qed

lemma demo_forward_ok:
  assumes "URL_new (demo_runtime (service token_granted history)) target ''https://reports.example.com'' =
             Some \<lparr>pathname = ''/api/report/download-history'', search = q\<rparr>"
  shows "handler (demo_runtime (service token_granted history)) demo_penv
           (demo_request ''GET'' target ''YWRtaW46czNjcmV0'') warm =
         (Inr (),
          warm\<lparr>ticks := Suc 0,
               calls := [(''https://api.curasev.com/api/v1/report/get-all-download-history'' @ q,
                          \<lparr>fr_method = ''GET'',
                           fr_headers = [(''Authorization'', ''Bearer tok-1''), (''clientkey'', ''ck''),
                                         (''Content-Type'', ''application/json'')],
                           fr_body = None\<rparr>)],
               res := \<lparr>statusCode = 200,
                        res_headers = [''Content-Type'' \<mapsto> ''application/json; charset=utf-8''],
                        sent = Some (Text (body_text history))\<rparr>\<rparr>)"
proof -
  let ?rt = "demo_runtime (service token_granted history)"
  let ?req = "demo_request ''GET'' target ''YWRtaW46czNjcmV0''"
  let ?u = "\<lparr>pathname = ''/api/report/download-history'', search = q\<rparr>"
  let ?w1 = "warm\<lparr>ticks := Suc 0\<rparr>"
  have url: "request_URL ?rt ?req = Inr ?u"
    using assms by (simp add: request_URL_eq demo_address)
  have p: "pathname ?u = ''/api/report/download-history''" by simp
  have fc: "forward_call ?rt ?req demo_env (JStr ''tok-1'')
              (''/api/v1/report/get-all-download-history'' @ search ?u) =
            (''https://api.curasev.com/api/v1/report/get-all-download-history'' @ q,
             \<lparr>fr_method = ''GET'',
              fr_headers = [(''Authorization'', ''Bearer tok-1''), (''clientkey'', ''ck''),
                            (''Content-Type'', ''application/json'')],
              fr_body = None\<rparr>)"
    by (simp add: forward_call_def CURASEV_BASE_URL_def demo_request_def interpolate_def
        demo_env_def getForwardBody_def)
  have up: "upstream ?rt (length (calls ?w1))
           (forward_call ?rt ?req demo_env (JStr ''tok-1'')
              (''/api/v1/report/get-all-download-history'' @ search ?u)) = Inr history"
    unfolding fc
    by (simp add: demo_runtime_def service_def CURASEV_BASE_URL_def AUTH_ENDPOINT_def)
  have okh: "ok history"
    by (simp add: ok_def history_def json_response_def)
  have ct: "content_type history = Some ''application/json; charset=utf-8''" "status history = 200"
    by (simp_all add: history_def json_response_def)
  from handler_forward_ok[OF demo_getEnv url p demo_guard_passes demo_getToken_warm up okh]
  show ?thesis
    unfolding fc by (simp add: ct warm_def cold_def)
qed

section \<open>The token cache\<close>

text \<open>
  C1. Whenever a token is cached and its age, the reading of the clock minus its fetch
  time, is strictly below the time-to-live of 25 minutes, \<^const>\<open>getToken\<close> returns
  the cached token. It issues no upstream call and leaves the cache as it was; the only
  trace it leaves is the reading of the clock.
\<close>

theorem cached_token_served:
  assumes "cachedToken w = Some c"
    and "clock rt (ticks w) - fetchedAt c < TOKEN_TTL_MS"
  shows "getToken rt env w = (Inr (token c), w\<lparr>ticks := Suc (ticks w)\<rparr>) \<and>
         calls (snd (getToken rt env w)) = calls w \<and>
         cachedToken (snd (getToken rt env w)) = cachedToken w"
  using assms by (simp add: getToken_def Date_now_def)

theorem cached_token_served_witness:
  "cachedToken warm = Some \<lparr>token = JStr ''tok-1'', fetchedAt = 1699999940000\<rparr> \<and>
   clock (demo_runtime (service token_granted history)) (ticks warm) - 1699999940000 < TOKEN_TTL_MS \<and>
   fst (getToken (demo_runtime (service token_granted history)) demo_env warm) = Inr (JStr ''tok-1'') \<and>
   calls (snd (getToken (demo_runtime (service token_granted history)) demo_env warm)) = [] \<and>
   cachedToken (snd (getToken (demo_runtime (service token_granted history)) demo_env warm)) = cachedToken warm"
proof -
  let ?c = "\<lparr>token = JStr ''tok-1'', fetchedAt = 1699999940000\<rparr>"
  let ?rt = "demo_runtime (service token_granted history)"
  have h1: "cachedToken warm = Some ?c"
    by (simp add: warm_def cold_def)
  have h2: "clock ?rt (ticks warm) - fetchedAt ?c < TOKEN_TTL_MS"
    by (simp add: warm_def cold_def demo_runtime_def demo_clock_def TOKEN_TTL_MS_def)
  from cached_token_served[OF h1 h2, of demo_env] h1 h2 show ?thesis
    by (simp add: warm_def cold_def)
qed

text \<open>
  C2. Whenever no token is cached, or the age of the cached one has reached the
  time-to-live, \<^const>\<open>getToken\<close> issues exactly one upstream call, the
  authentication call. It succeeds exactly when the response is ok and its body is a
  JSON object whose member \<^verbatim>\<open>data\<close> is an object whose member
  \<^verbatim>\<open>patient\<close> is an object with a truthy member \<^verbatim>\<open>currentToken\<close>. It then
  returns the value of that member, and the cache holds that value together with the
  reading of the clock taken after the response.
\<close>

theorem stale_token_refreshed:
  assumes "stale rt w"
  shows "calls (snd (getToken rt env w)) = calls w @ [auth_call rt env] \<and>
         (\<forall>r members d p t.
            upstream rt (length (calls w)) (auth_call rt env) = Inr r \<and> ok r \<and>
            body_json r = Inr (JObj members) \<and> map_of members ''data'' = Some (JObj d) \<and>
            map_of d ''patient'' = Some (JObj p) \<and> map_of p ''currentToken'' = Some t \<and> truthy t \<longrightarrow>
            fst (getToken rt env w) = Inr t \<and>
            cachedToken (snd (getToken rt env w)) =
              Some \<lparr>token = t, fetchedAt = clock rt (ticks (after_check w))\<rparr>) \<and>
         (\<forall>tok. fst (getToken rt env w) = Inr tok \<longrightarrow>
            (\<exists>r members d p.
               upstream rt (length (calls w)) (auth_call rt env) = Inr r \<and> ok r \<and>
               body_json r = Inr (JObj members) \<and> map_of members ''data'' = Some (JObj d) \<and>
               map_of d ''patient'' = Some (JObj p) \<and> map_of p ''currentToken'' = Some tok) \<and>
            cachedToken (snd (getToken rt env w)) =
              Some \<lparr>token = tok, fetchedAt = clock rt (ticks (after_check w))\<rparr>)"
proof (intro conjI allI impI)
  show "calls (snd (getToken rt env w)) = calls w @ [auth_call rt env]"
    using assms by (simp add: getToken_calls)
next
  fix r members d p t
  assume a: "upstream rt (length (calls w)) (auth_call rt env) = Inr r \<and> ok r \<and>
            body_json r = Inr (JObj members) \<and> map_of members ''data'' = Some (JObj d) \<and>
            map_of d ''patient'' = Some (JObj p) \<and> map_of p ''currentToken'' = Some t \<and> truthy t"
  then have ct: "currentToken (JObj members) = t"
    by (simp add: currentToken_member)
  with a show "fst (getToken rt env w) = Inr t"
    and "cachedToken (snd (getToken rt env w)) =
           Some \<lparr>token = t, fetchedAt = clock rt (ticks (after_check w))\<rparr>"
    using assms by (simp_all add: getToken_stale refreshToken_eq Let_def)
next
  fix tok
  assume ok: "fst (getToken rt env w) = Inr tok"
  have eq: "getToken rt env w = refreshToken rt env (after_check w)"
    using assms by (rule getToken_stale)
  have "refreshToken rt env (after_check w) = (Inr tok, snd (getToken rt env w))"
    using ok unfolding eq by (simp add: prod_eq_iff)
  from refreshToken_Inr[OF this]
  obtain r j where r: "upstream rt (length (calls w)) (auth_call rt env) = Inr r" "ok r"
    "body_json r = Inr j" and tr: "truthy (currentToken j)" and tk: "tok = currentToken j"
    and c: "cachedToken (snd (getToken rt env w)) =
              Some \<lparr>token = tok, fetchedAt = clock rt (ticks (after_check w))\<rparr>"
    by auto
  from currentToken_truthy[OF tr]
  obtain members d p where "j = JObj members" "map_of members ''data'' = Some (JObj d)"
    "map_of d ''patient'' = Some (JObj p)" "map_of p ''currentToken'' = Some (currentToken j)"
    by blast
  with r tk
  show "\<exists>r members d p.
               upstream rt (length (calls w)) (auth_call rt env) = Inr r \<and> ok r \<and>
               body_json r = Inr (JObj members) \<and> map_of members ''data'' = Some (JObj d) \<and>
               map_of d ''patient'' = Some (JObj p) \<and> map_of p ''currentToken'' = Some tok"
    by blast
  from c show "cachedToken (snd (getToken rt env w)) =
              Some \<lparr>token = tok, fetchedAt = clock rt (ticks (after_check w))\<rparr>" .
qed

theorem stale_token_refreshed_witness:
  "stale (demo_runtime (service token_granted history)) expired \<and>
   body_json token_granted =
     Inr (JObj [(''code'', JStr ''OK''),
                (''data'', JObj [(''status'', JStr ''active''),
                                 (''patient'', JObj [(''id'', JNum 7), (''currentToken'', JStr ''tok-2''),
                                                     (''previousToken'', JStr ''tok-0'')])]),
                (''message'', JNull)]) \<and>
   calls (snd (getToken (demo_runtime (service token_granted history)) demo_env expired)) =
     [auth_call (demo_runtime (service token_granted history)) demo_env] \<and>
   fst (getToken (demo_runtime (service token_granted history)) demo_env expired) = Inr (JStr ''tok-2'') \<and>
   cachedToken (snd (getToken (demo_runtime (service token_granted history)) demo_env expired)) =
     Some \<lparr>token = JStr ''tok-2'', fetchedAt = 1700000001000\<rparr>"
proof -
  let ?rt = "demo_runtime (service token_granted history)"
  let ?p = "[(''id'', JNum 7), (''currentToken'', JStr ''tok-2''), (''previousToken'', JStr ''tok-0'')]"
  let ?d = "[(''status'', JStr ''active''), (''patient'', JObj ?p)]"
  let ?members = "[(''code'', JStr ''OK''), (''data'', JObj ?d), (''message'', JNull)]"
  have st: "stale ?rt expired"
    by (simp add: stale_def expired_def cold_def demo_runtime_def demo_clock_def TOKEN_TTL_MS_def)
  have up: "upstream ?rt (length (calls expired)) (auth_call ?rt demo_env) = Inr token_granted"
    by (simp add: demo_runtime_def service_def auth_call_def)
  have okr: "ok token_granted"
    by (simp add: token_granted_def json_response_def ok_def)
  have bj: "body_json token_granted = Inr (JObj ?members)"
    by (simp add: token_granted_def json_response_def)
  have m: "map_of ?members ''data'' = Some (JObj ?d)" "map_of ?d ''patient'' = Some (JObj ?p)"
    "map_of ?p ''currentToken'' = Some (JStr ''tok-2'')" "truthy (JStr ''tok-2'')"
    by simp_all
  have at: "clock ?rt (ticks (after_check expired)) = 1700000001000"
    by (simp add: after_check_def expired_def cold_def demo_runtime_def demo_clock_def)
  have ce: "calls expired = []"
    by (simp add: expired_def cold_def)
  note main = stale_token_refreshed[OF st, of demo_env]
  from main have c: "calls (snd (getToken ?rt demo_env expired)) = calls expired @ [auth_call ?rt demo_env]"
    by (rule conjunct1)
  from main up okr bj m
  have f: "fst (getToken ?rt demo_env expired) = Inr (JStr ''tok-2'') \<and>
           cachedToken (snd (getToken ?rt demo_env expired)) =
             Some \<lparr>token = JStr ''tok-2'', fetchedAt = clock ?rt (ticks (after_check expired))\<rparr>"
    by blast
  from st bj c f show ?thesis
    unfolding at ce by simp
qed

text \<open>
  C3. When the authentication response is ok and its body is JSON with no token at
  \<^verbatim>\<open>data.patient.currentToken\<close> (the field is absent, or holds a falsy value),
  \<^const>\<open>getToken\<close> fails with status 502 and the parsed body as details, and the
  cache is what it was before the call.
\<close>

theorem missing_token_rejected:
  assumes "stale rt w"
    and "upstream rt (length (calls w)) (auth_call rt env) = Inr r"
    and "ok r"
    and "body_json r = Inr j"
    and "\<not> truthy (currentToken j)"
  shows "fst (getToken rt env w) =
           Inl \<lparr>message = ''Curasev authentication failed: missing token'',
                err_status = Some 502, details = j\<rparr> \<and>
         cachedToken (snd (getToken rt env w)) = cachedToken w"
  using assms by (simp add: getToken_stale refreshToken_eq Let_def)

theorem missing_token_rejected_witness:
  "stale (demo_runtime (service token_missing history)) cold \<and>
   upstream (demo_runtime (service token_missing history)) (length (calls cold))
     (auth_call (demo_runtime (service token_missing history)) demo_env) = Inr token_missing \<and>
   ok token_missing \<and>
   body_json token_missing = Inr (JObj [(''data'', JObj [(''patient'', JObj [])])]) \<and>
   currentToken (JObj [(''data'', JObj [(''patient'', JObj [])])]) = JUndefined \<and>
   fst (getToken (demo_runtime (service token_missing history)) demo_env cold) =
     Inl \<lparr>message = ''Curasev authentication failed: missing token'', err_status = Some 502,
          details = JObj [(''data'', JObj [(''patient'', JObj [])])]\<rparr> \<and>
   cachedToken (snd (getToken (demo_runtime (service token_missing history)) demo_env cold)) = None"
proof -
  let ?rt = "demo_runtime (service token_missing history)"
  let ?j = "JObj [(''data'', JObj [(''patient'', JObj [])])]"
  have h1: "stale ?rt cold" by (simp add: stale_def cold_def)
  have h2: "upstream ?rt (length (calls cold)) (auth_call ?rt demo_env) = Inr token_missing"
    by (simp add: demo_runtime_def service_def auth_call_def)
  have h3: "ok token_missing" by (simp add: ok_def token_missing_def json_response_def)
  have h4: "body_json token_missing = Inr ?j" by (simp add: token_missing_def json_response_def)
  have h5: "currentToken ?j = JUndefined" by (simp add: currentToken_def)
  then have h5': "\<not> truthy (currentToken ?j)" by simp
  from missing_token_rejected[OF h1 h2 h3 h4 h5'] h1 h2 h3 h4 h5 show ?thesis
    by (simp add: cold_def)
qed

text \<open>
  The body has to be JSON for this. An ok response whose body is not JSON has no token
  either, but there \<^verbatim>\<open>response.json()\<close> rejects before the token is looked
  for: \<^const>\<open>getToken\<close> fails with that error, which has neither status nor details,
  and the login route answers 500.
\<close>

theorem missing_token_counterexample:
  "upstream (demo_runtime (service login_page history)) (length (calls cold))
     (auth_call (demo_runtime (service login_page history)) demo_env) = Inr login_page \<and>
   ok login_page \<and>
   body_json login_page = Inl ''invalid json response body'' \<and>
   fst (getToken (demo_runtime (service login_page history)) demo_env cold) =
     Inl \<lparr>message = ''invalid json response body'', err_status = None, details = JUndefined\<rparr> \<and>
   (case fst (getToken (demo_runtime (service login_page history)) demo_env cold) of
      Inl e \<Rightarrow> err_status e | Inr t \<Rightarrow> None) \<noteq> Some 502 \<and>
   statusCode (res (snd (handler (demo_runtime (service login_page history)) demo_penv
     (demo_request ''POST'' ''/api/auth/login'' ''YWRtaW46czNjcmV0'') cold))) = 500"
proof -
  let ?rt = "demo_runtime (service login_page history)"
  let ?req = "demo_request ''POST'' ''/api/auth/login'' ''YWRtaW46czNjcmV0''"
  have st: "stale ?rt cold" by (simp add: stale_def cold_def)
  have ac: "after_check cold = cold" by (simp add: after_check_def cold_def)
  have up: "upstream ?rt (length (calls cold)) (auth_call ?rt demo_env) = Inr login_page"
    by (simp add: demo_runtime_def service_def auth_call_def)
  have okp: "ok login_page" by (simp add: ok_def login_page_def text_response_def)
  have bj: "body_json login_page = Inl ''invalid json response body''"
    by (simp add: login_page_def text_response_def)
  have gt: "getToken ?rt demo_env cold =
              (Inl (plain_error ''invalid json response body''),
               cold\<lparr>calls := calls cold @ [auth_call ?rt demo_env]\<rparr>)"
    using up okp bj by (simp add: getToken_stale[OF st] ac refreshToken_eq Let_def)
  have route: "routes ?rt (pathname \<lparr>pathname = ''/api/auth/login'', search = []\<rparr>) = Some (login ?rt)"
    by (simp add: routes_eq)
  have h: "handler ?rt demo_penv ?req cold =
             (Inr (), cold\<lparr>calls := calls cold @ [auth_call ?rt demo_env],
                           res := error_envelope (plain_error ''invalid json response body'') (res cold)\<rparr>)"
    using handler_route[OF demo_getEnv demo_login_URL route, where w = cold]
      login_token[OF demo_guard_passes gt]
    by simp
  have "statusCode (res (snd (handler ?rt demo_penv ?req cold))) = 500"
    unfolding h by (simp add: error_envelope_eq plain_error_def)
  with up okp bj gt show ?thesis
    by (simp add: plain_error_def)
qed

section \<open>The credential guard\<close>

text \<open>
  C4. Under a valid configuration, a request to either guarded route is answered with
  status 401, the challenge header \<^verbatim>\<open>WWW-Authenticate: Basic realm="Reporting"\<close>
  and the error envelope when its \<^verbatim>\<open>Authorization\<close> header is missing, does not
  start with \<^verbatim>\<open>Basic \<close>, or carries a payload that the decoder turns into a text
  that is neither \<^verbatim>\<open>user:pass\<close> nor \<^verbatim>\<open>user:pass:\<close> followed by more, for the
  configured user and password. And every response of the handler with status 401,
  whatever its cause, carries that header.
\<close>

theorem bad_credentials_unauthorized:
  assumes "valid_config penv"
    and "penv ''BASIC_AUTH_USER'' = Some user"
    and "penv ''BASIC_AUTH_PASS'' = Some pass"
    and "URL_new rt (address req) (address_base req) = Some u"
    and "pathname u = ''/api/auth/login'' \<or> pathname u = ''/api/report/download-history''"
    and "req_headers req ''authorization'' = None \<or>
         (\<exists>h. req_headers req ''authorization'' = Some h \<and>
              ((\<forall>payload. h \<noteq> ''Basic '' @ payload) \<or>
               (\<exists>payload. h = ''Basic '' @ payload \<and>
                   base64_utf8 rt payload \<noteq> user @ '':'' @ pass \<and>
                   (\<forall>extra. base64_utf8 rt payload \<noteq> user @ '':'' @ pass @ '':'' @ extra))))"
  shows "handler rt penv req w =
           (Inr (), w\<lparr>res := \<lparr>statusCode = 401,
                res_headers = (res_headers (res w))(''WWW-Authenticate'' \<mapsto> ''Basic realm=\"Reporting\"''),
                sent = Some (Json (JObj [(''error'', JStr ''Unauthorized''), (''details'', JUndefined)]))\<rparr>\<rparr>) \<and>
         (\<forall>penv' req' w'.
            fst (handler rt penv' req' w') = Inr () \<and>
            statusCode (res (snd (handler rt penv' req' w'))) = 401 \<longrightarrow>
            res_headers (res (snd (handler rt penv' req' w'))) ''WWW-Authenticate'' =
              Some ''Basic realm=\"Reporting\"'')"
proof (intro conjI allI impI)
  let ?env = "config penv"
  have env: "getEnv penv = Inr ?env"
    using assms(1) by (rule getEnv_valid)
  have pair: "BASIC_AUTH_USER ?env = user" "BASIC_AUTH_PASS ?env = pass"
    using config_guard_pair[OF assms(2,3)] by simp_all
  have url: "request_URL rt req = Inr u"
    using assms(4) by (simp add: request_URL_eq)
  have "assertBasicAuth rt req ?env \<noteq> Inr ()"
  proof
    assume "assertBasicAuth rt req ?env = Inr ()"
    from guard_accepts_text[OF this]
    obtain payload where h: "req_headers req ''authorization'' = Some (''Basic '' @ payload)"
      and d: "base64_utf8 rt payload = user @ '':'' @ pass \<or>
              (\<exists>extra. base64_utf8 rt payload = user @ '':'' @ pass @ '':'' @ extra)"
      unfolding pair by blast
    from assms(6) h
    have "base64_utf8 rt payload \<noteq> user @ '':'' @ pass \<and>
          (\<forall>extra. base64_utf8 rt payload \<noteq> user @ '':'' @ pass @ '':'' @ extra)"
      by auto
    with d show False by blast
  qed
  with guard_cases[of rt req ?env] have g: "assertBasicAuth rt req ?env = Inl throwUnauthorized"
    by simp
  obtain route where route: "routes rt (pathname u) = Some route"
    and run: "route req ?env w = (Inl throwUnauthorized, w)"
    using assms(5) g by (auto simp: routes_eq login_guard proxyRequest_guard)
  from handler_route[OF env url route, of w] run
  show "handler rt penv req w =
           (Inr (), w\<lparr>res := \<lparr>statusCode = 401,
                res_headers = (res_headers (res w))(''WWW-Authenticate'' \<mapsto> ''Basic realm=\"Reporting\"''),
                sent = Some (Json (JObj [(''error'', JStr ''Unauthorized''), (''details'', JUndefined)]))\<rparr>\<rparr>)"
    by (simp add: error_envelope_eq throwUnauthorized_def)
next
  fix penv' req' w'
  assume "fst (handler rt penv' req' w') = Inr () \<and>
          statusCode (res (snd (handler rt penv' req' w'))) = 401"
  then show "res_headers (res (snd (handler rt penv' req' w'))) ''WWW-Authenticate'' =
              Some ''Basic realm=\"Reporting\"''"
    using handler_401_challenge by blast
qed

theorem bad_credentials_unauthorized_witness:
  "valid_config demo_penv \<and>
   base64_utf8 (demo_runtime (service token_granted history)) ''YWRtaW46d3Jvbmc='' = ''admin:wrong'' \<and>
   handler (demo_runtime (service token_granted history)) demo_penv
     (demo_request ''GET'' ''/api/report/download-history?dayDiff=60'' ''YWRtaW46d3Jvbmc='') warm =
     (Inr (), warm\<lparr>res := \<lparr>statusCode = 401,
                res_headers = [''WWW-Authenticate'' \<mapsto> ''Basic realm=\"Reporting\"''],
                sent = Some (Json (JObj [(''error'', JStr ''Unauthorized''), (''details'', JUndefined)]))\<rparr>\<rparr>) \<and>
   statusCode (res (snd (handler (demo_runtime (service token_granted history)) demo_penv
     (demo_request ''GET'' ''/api/report/download-history?dayDiff=60'' ''YWRtaW46d3Jvbmc='') warm))) = 401 \<and>
   res_headers (res (snd (handler (demo_runtime (service token_granted history)) demo_penv
     (demo_request ''GET'' ''/api/report/download-history?dayDiff=60'' ''YWRtaW46d3Jvbmc='') warm)))
     ''WWW-Authenticate'' = Some ''Basic realm=\"Reporting\"''"
proof -
  let ?rt = "demo_runtime (service token_granted history)"
  let ?req = "demo_request ''GET'' ''/api/report/download-history?dayDiff=60'' ''YWRtaW46d3Jvbmc=''"
  let ?u = "\<lparr>pathname = ''/api/report/download-history'', search = ''?dayDiff=60''\<rparr>"
  have h1: "valid_config demo_penv" using demo_valid_config by simp
  have h2: "demo_penv ''BASIC_AUTH_USER'' = Some ''admin''" by (simp add: demo_penv_def)
  have h3: "demo_penv ''BASIC_AUTH_PASS'' = Some ''s3cret''" by (simp add: demo_penv_def)
  have h4: "URL_new ?rt (address ?req) (address_base ?req) = Some ?u"
    by (simp add: demo_address demo_download_URL_new)
  have h5: "pathname ?u = ''/api/auth/login'' \<or> pathname ?u = ''/api/report/download-history''"
    by simp
  have d: "base64_utf8 ?rt ''YWRtaW46d3Jvbmc='' = ''admin:wrong''" by code_simp
  have hd: "req_headers ?req ''authorization'' = Some (''Basic '' @ ''YWRtaW46d3Jvbmc='')"
    by (simp add: demo_request_def)
  have ne: "base64_utf8 ?rt ''YWRtaW46d3Jvbmc='' \<noteq> ''admin'' @ '':'' @ ''s3cret'' \<and>
            (\<forall>extra. base64_utf8 ?rt ''YWRtaW46d3Jvbmc='' \<noteq> ''admin'' @ '':'' @ ''s3cret'' @ '':'' @ extra)"
    unfolding d by simp
  have h6: "req_headers ?req ''authorization'' = None \<or>
         (\<exists>h. req_headers ?req ''authorization'' = Some h \<and>
              ((\<forall>payload. h \<noteq> ''Basic '' @ payload) \<or>
               (\<exists>payload. h = ''Basic '' @ payload \<and>
                   base64_utf8 ?rt payload \<noteq> ''admin'' @ '':'' @ ''s3cret'' \<and>
                   (\<forall>extra. base64_utf8 ?rt payload \<noteq> ''admin'' @ '':'' @ ''s3cret'' @ '':'' @ extra))))"
    using hd ne by blast
  have r: "res_headers (res warm) = Map.empty"
    by (simp add: warm_def cold_def)
  note main = bad_credentials_unauthorized[OF h1 h2 h3 h4 h5 h6, where w = warm]
  from main
  have e: "handler ?rt demo_penv ?req warm =
     (Inr (), warm\<lparr>res := \<lparr>statusCode = 401,
                res_headers = (res_headers (res warm))(''WWW-Authenticate'' \<mapsto> ''Basic realm=\"Reporting\"''),
                sent = Some (Json (JObj [(''error'', JStr ''Unauthorized''), (''details'', JUndefined)]))\<rparr>\<rparr>)"
    by (rule conjunct1)
  then have f: "fst (handler ?rt demo_penv ?req warm) = Inr () \<and>
                statusCode (res (snd (handler ?rt demo_penv ?req warm))) = 401"
    by simp
  with main have "res_headers (res (snd (handler ?rt demo_penv ?req warm))) ''WWW-Authenticate'' =
                    Some ''Basic realm=\"Reporting\"''"
    by blast
  with h1 d e f show ?thesis
    unfolding r by blast
qed

text \<open>
  Not every header that is malformed or names another pair is refused. Decoding never
  raises and skips the characters outside the alphabet, so a payload with a space in it
  can still decode to the configured pair; and a decoded \<^verbatim>\<open>admin:s3cret:extra\<close>,
  whose password after the first colon is \<^verbatim>\<open>s3cret:extra\<close>, passes for the
  configured \<^verbatim>\<open>admin\<close> and \<^verbatim>\<open>s3cret\<close>. Both requests are answered 200.
\<close>

theorem bad_credentials_counterexample:
  "CHR '' '' \<in> set ''YWRtaW46 czNjcmV0'' \<and> CHR '' '' \<notin> set base64_alphabet \<and>
   statusCode (res (snd (handler (demo_runtime (service token_granted history)) demo_penv
     (demo_request ''POST'' ''/api/auth/login'' ''YWRtaW46 czNjcmV0'') warm))) = 200 \<and>
   base64_utf8 (demo_runtime (service token_granted history)) ''YWRtaW46czNjcmV0OmV4dHJh'' =
     ''admin:s3cret:extra'' \<and>
   ''admin:s3cret:extra'' \<noteq> ''admin:s3cret'' \<and>
   statusCode (res (snd (handler (demo_runtime (service token_granted history)) demo_penv
     (demo_request ''POST'' ''/api/auth/login'' ''YWRtaW46czNjcmV0OmV4dHJh'') warm))) = 200"
proof -
  let ?rt = "demo_runtime (service token_granted history)"
  have a1: "CHR '' '' \<in> set ''YWRtaW46 czNjcmV0''" by simp
  have a2: "CHR '' '' \<notin> set base64_alphabet" by (simp add: base64_alphabet_def)
  have d1: "demo_base64_utf8 ''YWRtaW46 czNjcmV0'' = ''admin:s3cret''" by code_simp
  have d2: "demo_base64_utf8 ''YWRtaW46czNjcmV0OmV4dHJh'' = ''admin:s3cret:extra''" by code_simp
  have g1: "assertBasicAuth ?rt (demo_request ''POST'' ''/api/auth/login'' ''YWRtaW46 czNjcmV0'') demo_env = Inr ()"
    using d1 by (simp add: assertBasicAuth_def demo_request_def demo_runtime_def demo_env_def
        startsWith_def elem_at_def Let_def)
  have g2: "assertBasicAuth ?rt (demo_request ''POST'' ''/api/auth/login'' ''YWRtaW46czNjcmV0OmV4dHJh'') demo_env = Inr ()"
    using d2 by (simp add: assertBasicAuth_def demo_request_def demo_runtime_def demo_env_def
        startsWith_def elem_at_def Let_def)
  have s1: "statusCode (res (snd (handler ?rt demo_penv
     (demo_request ''POST'' ''/api/auth/login'' ''YWRtaW46 czNjcmV0'') warm))) = 200"
    unfolding demo_login_accepted[OF g1] by simp
  have s2: "statusCode (res (snd (handler ?rt demo_penv
     (demo_request ''POST'' ''/api/auth/login'' ''YWRtaW46czNjcmV0OmV4dHJh'') warm))) = 200"
    unfolding demo_login_accepted[OF g2] by simp
  have b: "base64_utf8 ?rt ''YWRtaW46czNjcmV0OmV4dHJh'' = ''admin:s3cret:extra''"
    using d2 by (simp add: demo_runtime_def)
  have n: "''admin:s3cret:extra'' \<noteq> ''admin:s3cret''" by simp
  from a1 a2 s1 b n s2 show ?thesis by blast
qed

text \<open>
  C10. The guard splits the decoded text at every colon and compares its first segment
  with the configured user and its second with the configured password, whatever
  follows. So a decoded text \<^verbatim>\<open>user:pass:extra\<close> whose first two segments are the
  configured pair is accepted, and when the configured password contains a colon no
  request is accepted.
\<close>

theorem guard_compares_two_segments:
  "(assertBasicAuth rt req env = Inr () \<longleftrightarrow>
      (\<exists>h. req_headers req ''authorization'' = Some h \<and> startsWith ''Basic '' h \<and>
           credentials rt h = (Some (BASIC_AUTH_USER env), Some (BASIC_AUTH_PASS env)))) \<and>
   (req_headers req ''authorization'' = Some (''Basic '' @ encoded) \<and>
    base64_utf8 rt encoded = user @ '':'' @ pass @ '':'' @ extra \<and>
    CHR '':'' \<notin> set user \<and> CHR '':'' \<notin> set pass \<and>
    BASIC_AUTH_USER env = user \<and> BASIC_AUTH_PASS env = pass \<longrightarrow>
      assertBasicAuth rt req env = Inr ()) \<and>
   (CHR '':'' \<in> set (BASIC_AUTH_PASS env) \<longrightarrow>
      assertBasicAuth rt req env = Inl throwUnauthorized)"
proof (intro conjI impI)
  show "assertBasicAuth rt req env = Inr () \<longleftrightarrow>
      (\<exists>h. req_headers req ''authorization'' = Some h \<and> startsWith ''Basic '' h \<and>
           credentials rt h = (Some (BASIC_AUTH_USER env), Some (BASIC_AUTH_PASS env)))"
    by (rule assertBasicAuth_iff)
next
  assume a: "req_headers req ''authorization'' = Some (''Basic '' @ encoded) \<and>
    base64_utf8 rt encoded = user @ '':'' @ pass @ '':'' @ extra \<and>
    CHR '':'' \<notin> set user \<and> CHR '':'' \<notin> set pass \<and>
    BASIC_AUTH_USER env = user \<and> BASIC_AUTH_PASS env = pass"
  then have "split_colon (base64_utf8 rt encoded) = user # pass # split_colon extra"
    by (simp add: split_colon_append)
  with a show "assertBasicAuth rt req env = Inr ()"
    by (simp add: assertBasicAuth_def startsWith_def elem_at_def Let_def)
next
  assume c: "CHR '':'' \<in> set (BASIC_AUTH_PASS env)"
  have "assertBasicAuth rt req env \<noteq> Inr ()"
  proof
    assume "assertBasicAuth rt req env = Inr ()"
    then obtain h where "credentials rt h = (Some (BASIC_AUTH_USER env), Some (BASIC_AUTH_PASS env))"
      by (auto simp: assertBasicAuth_iff)
    then have "BASIC_AUTH_PASS env \<in> set (split_colon (base64_utf8 rt (drop (length ''Basic '') h)))"
      by (auto simp: credentials_def Let_def dest: elem_at_set)
    from split_colon_segments[OF this] c show False by simp
  qed
  with guard_cases[of rt req env] show "assertBasicAuth rt req env = Inl throwUnauthorized"
    by simp
qed

theorem guard_compares_two_segments_witness:
  "req_headers (demo_request ''POST'' ''/api/auth/login'' ''YWRtaW46czNjcmV0OmV4dHJh'') ''authorization''
     = Some (''Basic '' @ ''YWRtaW46czNjcmV0OmV4dHJh'') \<and>
   base64_utf8 (demo_runtime (service token_granted history)) ''YWRtaW46czNjcmV0OmV4dHJh''
     = ''admin'' @ '':'' @ ''s3cret'' @ '':'' @ ''extra'' \<and>
   assertBasicAuth (demo_runtime (service token_granted history))
     (demo_request ''POST'' ''/api/auth/login'' ''YWRtaW46czNjcmV0OmV4dHJh'') demo_env = Inr () \<and>
   CHR '':'' \<in> set (BASIC_AUTH_PASS colon_env) \<and>
   base64_utf8 (demo_runtime (service token_granted history)) ''YWRtaW46czM6Y3JldA=='' = ''admin:s3:cret'' \<and>
   assertBasicAuth (demo_runtime (service token_granted history))
     (demo_request ''POST'' ''/api/auth/login'' ''YWRtaW46czM6Y3JldA=='') colon_env = Inl throwUnauthorized"
proof -
  let ?rt = "demo_runtime (service token_granted history)"
  let ?req = "demo_request ''POST'' ''/api/auth/login'' ''YWRtaW46czNjcmV0OmV4dHJh''"
  let ?req' = "demo_request ''POST'' ''/api/auth/login'' ''YWRtaW46czM6Y3JldA==''"
  have h1: "req_headers ?req ''authorization'' = Some (''Basic '' @ ''YWRtaW46czNjcmV0OmV4dHJh'')"
    by (simp add: demo_request_def)
  have h2: "base64_utf8 ?rt ''YWRtaW46czNjcmV0OmV4dHJh'' = ''admin'' @ '':'' @ ''s3cret'' @ '':'' @ ''extra''"
    by code_simp
  have h3: "CHR '':'' \<notin> set ''admin'' \<and> CHR '':'' \<notin> set ''s3cret'' \<and>
            BASIC_AUTH_USER demo_env = ''admin'' \<and> BASIC_AUTH_PASS demo_env = ''s3cret''"
    by (simp add: demo_env_def)
  have h4: "CHR '':'' \<in> set (BASIC_AUTH_PASS colon_env)"
    by (simp add: colon_env_def)
  have h5: "base64_utf8 ?rt ''YWRtaW46czM6Y3JldA=='' = ''admin:s3:cret''"
    by code_simp
  from guard_compares_two_segments[of ?rt ?req demo_env "''YWRtaW46czNjcmV0OmV4dHJh''" "''admin''" "''s3cret''" "''extra''"]
    h1 h2 h3
  have a: "assertBasicAuth ?rt ?req demo_env = Inr ()" by blast
  from guard_compares_two_segments[of ?rt ?req' colon_env] h4
  have b: "assertBasicAuth ?rt ?req' colon_env = Inl throwUnauthorized" by blast
  from h1 h2 a h4 h5 b show ?thesis by blast
qed

section \<open>The upstream forwarder\<close>

text \<open>
  C5. A call answered with a status outside 200 to 299 makes \<^const>\<open>fetchCurasev\<close>
  fail with an error that carries that status and the text of the body. Whichever call
  of an invocation it is, the authentication call or the forwarded one, the handler
  answers with the same status and an envelope whose details are that text.
\<close>

theorem upstream_error_relayed:
  "(upstream rt (length (calls w0)) (CURASEV_BASE_URL @ path, init) = Inr r \<and> \<not> ok r \<longrightarrow>
      fst (fetchCurasev rt path init w0) =
        Inl \<lparr>message = ''Curasev API error: '' @ show_nat (status r),
             err_status = Some (status r), details = JStr (body_text r)\<rparr>) \<and>
   (handler rt penv req w = (x, w1) \<and> length (calls w) \<le> k \<and> k < length (calls w1) \<and>
    upstream rt k (calls w1 ! k) = Inr r \<and> \<not> ok r \<longrightarrow>
      x = Inr () \<and> statusCode (res w1) = status r \<and>
      sent (res w1) =
        Some (Json (JObj [(''error'', JStr (''Curasev API error: '' @ show_nat (status r))),
                          (''details'', JStr (body_text r))])))"
  using handler_non_ok_k[of rt penv req w x w1 k r]
  by (simp add: fetchCurasev_eq upstream_error_def)

theorem upstream_error_relayed_witness:
  "fst (fetchCurasev (demo_runtime (service token_granted maintenance))
          ''/api/v1/report/get-all-download-history''
          \<lparr>fr_method = ''GET'', fr_headers = [], fr_body = None\<rparr> warm) =
     Inl \<lparr>message = ''Curasev API error: 503'', err_status = Some 503,
          details = JStr ''maintenance''\<rparr> \<and>
   upstream (demo_runtime (service token_granted maintenance)) 0
     (calls (snd (handler (demo_runtime (service token_granted maintenance)) demo_penv
        (demo_request ''GET'' ''/api/report/download-history?dayDiff=60'' ''YWRtaW46czNjcmV0'') warm)) ! 0)
     = Inr maintenance \<and>
   \<not> ok maintenance \<and> status maintenance = 503 \<and> body_text maintenance = ''maintenance'' \<and>
   fst (handler (demo_runtime (service token_granted maintenance)) demo_penv
        (demo_request ''GET'' ''/api/report/download-history?dayDiff=60'' ''YWRtaW46czNjcmV0'') warm) = Inr () \<and>
   statusCode (res (snd (handler (demo_runtime (service token_granted maintenance)) demo_penv
        (demo_request ''GET'' ''/api/report/download-history?dayDiff=60'' ''YWRtaW46czNjcmV0'') warm))) = 503 \<and>
   sent (res (snd (handler (demo_runtime (service token_granted maintenance)) demo_penv
        (demo_request ''GET'' ''/api/report/download-history?dayDiff=60'' ''YWRtaW46czNjcmV0'') warm))) =
     Some (Json (JObj [(''error'', JStr ''Curasev API error: 503''), (''details'', JStr ''maintenance'')]))"
proof -
  let ?rt = "demo_runtime (service token_granted maintenance)"
  let ?req = "demo_request ''GET'' ''/api/report/download-history?dayDiff=60'' ''YWRtaW46czNjcmV0''"
  let ?out = "handler ?rt demo_penv ?req warm"
  have h1: "?out = (fst ?out, snd ?out)" by simp
  have h2: "length (calls warm) \<le> 0" by (simp add: warm_def cold_def)
  have h3: "0 < length (calls (snd ?out))"
    by (simp add: demo_history_down)
  have c: "calls (snd ?out) ! 0 =
             forward_call ?rt ?req demo_env (JStr ''tok-1'')
               ''/api/v1/report/get-all-download-history?dayDiff=60''"
    by (simp add: demo_history_down)
  have h4: "upstream ?rt 0 (calls (snd ?out) ! 0) = Inr maintenance"
    unfolding c
    by (simp add: demo_runtime_def service_def forward_call_def CURASEV_BASE_URL_def AUTH_ENDPOINT_def)
  have h5: "\<not> ok maintenance"
    by (simp add: ok_def maintenance_def text_response_def)
  have v: "status maintenance = 503" "body_text maintenance = ''maintenance''"
    by (simp_all add: maintenance_def text_response_def)
  have d: "show_nat 503 = ''503''" by simp
  let ?init = "\<lparr>fr_method = ''GET'', fr_headers = [], fr_body = None\<rparr>"
  let ?path = "''/api/v1/report/get-all-download-history''"
  have h6: "upstream ?rt (length (calls warm)) (CURASEV_BASE_URL @ ?path, ?init) = Inr maintenance"
    by (simp add: demo_runtime_def service_def CURASEV_BASE_URL_def AUTH_ENDPOINT_def)
  note main = upstream_error_relayed[where rt = ?rt and ?w0.0 = warm and init = ?init and path = ?path
      and r = maintenance and penv = demo_penv and req = ?req and w = warm
      and x = "fst ?out" and ?w1.0 = "snd ?out" and k = 0]
  from main h6 h5
  have a: "fst (fetchCurasev ?rt ?path ?init warm) =
        Inl \<lparr>message = ''Curasev API error: '' @ show_nat (status maintenance),
             err_status = Some (status maintenance), details = JStr (body_text maintenance)\<rparr>"
    by blast
  from main h1 h2 h3 h4 h5
  have b: "fst ?out = Inr () \<and> statusCode (res (snd ?out)) = status maintenance \<and>
        sent (res (snd ?out)) =
          Some (Json (JObj [(''error'', JStr (''Curasev API error: '' @ show_nat (status maintenance))),
                            (''details'', JStr (body_text maintenance))]))"
    by blast
  from a b h4 h5 v show ?thesis
    unfolding v d by simp
qed

text \<open>
  C6. Under a valid configuration, when the guard passes, a token is obtained and the
  upstream answers the forwarded call with an ok response, that call went to the
  download-history path followed by the search component that \<^verbatim>\<open>new URL\<close> computes
  from the request target as received, and the handler answers with the upstream status,
  the upstream content type (or \<^verbatim>\<open>application/json\<close> when there is none) and the
  upstream body text.
\<close>

theorem forward_relays_response:
  assumes "valid_config penv"
    and "URL_new rt (address req) (address_base req) = Some u"
    and "pathname u = ''/api/report/download-history''"
    and "assertBasicAuth rt req (config penv) = Inr ()"
    and "getToken rt (config penv) w = (Inr tok, w1)"
    and "upstream rt (length (calls w1))
           (CURASEV_BASE_URL @ ''/api/v1/report/get-all-download-history'' @ search u,
            \<lparr>fr_method = req_method req,
             fr_headers = [(''Authorization'', ''Bearer '' @ interpolate rt tok),
                           (''clientkey'', CURASEV_CLIENT_KEY (config penv)),
                           (''Content-Type'', ''application/json'')],
             fr_body = getForwardBody rt req\<rparr>) = Inr r"
    and "ok r"
  shows "handler rt penv req w =
           (Inr (),
            w1\<lparr>calls := calls w1 @
                   [(CURASEV_BASE_URL @ ''/api/v1/report/get-all-download-history'' @ search u,
                     \<lparr>fr_method = req_method req,
                      fr_headers = [(''Authorization'', ''Bearer '' @ interpolate rt tok),
                                    (''clientkey'', CURASEV_CLIENT_KEY (config penv)),
                                    (''Content-Type'', ''application/json'')],
                      fr_body = getForwardBody rt req\<rparr>)],
               res := \<lparr>statusCode = status r,
                        res_headers = (res_headers (res w))(''Content-Type'' \<mapsto>
                          (case content_type r of None \<Rightarrow> ''application/json'' | Some ct \<Rightarrow> ct)),
                        sent = Some (Text (body_text r))\<rparr>\<rparr>)"
proof -
  have env: "getEnv penv = Inr (config penv)"
    using assms(1) by (rule getEnv_valid)
  have url: "request_URL rt req = Inr u"
    using assms(2) by (simp add: request_URL_eq)
  have up: "upstream rt (length (calls w1))
           (forward_call rt req (config penv) tok (''/api/v1/report/get-all-download-history'' @ search u)) = Inr r"
    using assms(6) by (simp add: forward_call_def)
  from handler_forward_ok[OF env url assms(3,4,5) up assms(7)]
  show ?thesis by (simp add: forward_call_def)
qed

theorem forward_relays_response_witness:
  "valid_config demo_penv \<and>
   address (demo_request ''GET'' ''/api/report/download-history?dayDiff=60'' ''YWRtaW46czNjcmV0'') =
     ''/api/report/download-history?dayDiff=60'' \<and>
   URL_new (demo_runtime (service token_granted history)) ''/api/report/download-history?dayDiff=60''
     ''https://reports.example.com'' =
     Some \<lparr>pathname = ''/api/report/download-history'', search = ''?dayDiff=60''\<rparr> \<and>
   ok history \<and>
   fst (handler (demo_runtime (service token_granted history)) demo_penv
     (demo_request ''GET'' ''/api/report/download-history?dayDiff=60'' ''YWRtaW46czNjcmV0'') warm) = Inr () \<and>
   map fst (calls (snd (handler (demo_runtime (service token_granted history)) demo_penv
     (demo_request ''GET'' ''/api/report/download-history?dayDiff=60'' ''YWRtaW46czNjcmV0'') warm))) =
     [''https://api.curasev.com/api/v1/report/get-all-download-history?dayDiff=60''] \<and>
   res (snd (handler (demo_runtime (service token_granted history)) demo_penv
     (demo_request ''GET'' ''/api/report/download-history?dayDiff=60'' ''YWRtaW46czNjcmV0'') warm)) =
     \<lparr>statusCode = 200,
      res_headers = [''Content-Type'' \<mapsto> ''application/json; charset=utf-8''],
      sent = Some (Text (body_text history))\<rparr>"
proof -
  let ?rt = "demo_runtime (service token_granted history)"
  let ?req = "demo_request ''GET'' ''/api/report/download-history?dayDiff=60'' ''YWRtaW46czNjcmV0''"
  let ?u = "\<lparr>pathname = ''/api/report/download-history'', search = ''?dayDiff=60''\<rparr>"
  let ?w1 = "warm\<lparr>ticks := Suc 0\<rparr>"
  let ?init = "\<lparr>fr_method = req_method ?req,
             fr_headers = [(''Authorization'', ''Bearer '' @ interpolate ?rt (JStr ''tok-1'')),
                           (''clientkey'', CURASEV_CLIENT_KEY (config demo_penv)),
                           (''Content-Type'', ''application/json'')],
             fr_body = getForwardBody ?rt ?req\<rparr>"
  have h1: "valid_config demo_penv" using demo_valid_config by simp
  have cf: "config demo_penv = demo_env" using demo_valid_config by simp
  have a: "address ?req = ''/api/report/download-history?dayDiff=60''"
    by (simp add: demo_address)
  have h2: "URL_new ?rt (address ?req) (address_base ?req) = Some ?u"
    by (simp add: demo_address demo_download_URL_new)
  have h3: "pathname ?u = ''/api/report/download-history''" by simp
  have h4: "assertBasicAuth ?rt ?req (config demo_penv) = Inr ()"
    unfolding cf by (rule demo_guard_passes)
  have h5: "getToken ?rt (config demo_penv) warm = (Inr (JStr ''tok-1''), ?w1)"
    unfolding cf by (rule demo_getToken_warm)
  have h6: "upstream ?rt (length (calls ?w1))
           (CURASEV_BASE_URL @ ''/api/v1/report/get-all-download-history'' @ search ?u, ?init) = Inr history"
    by (simp add: demo_runtime_def service_def CURASEV_BASE_URL_def AUTH_ENDPOINT_def)
  have h7: "ok history"
    by (simp add: ok_def history_def json_response_def)
  have ct: "content_type history = Some ''application/json; charset=utf-8''" "status history = 200"
    by (simp_all add: history_def json_response_def)
  from forward_relays_response[OF h1 h2 h3 h4 h5 h6 h7]
  have "handler ?rt demo_penv ?req warm =
          (Inr (), ?w1\<lparr>calls := calls ?w1 @
                   [(CURASEV_BASE_URL @ ''/api/v1/report/get-all-download-history'' @ search ?u, ?init)],
               res := \<lparr>statusCode = status history,
                        res_headers = (res_headers (res warm))(''Content-Type'' \<mapsto>
                          (case content_type history of None \<Rightarrow> ''application/json'' | Some ct \<Rightarrow> ct)),
                        sent = Some (Text (body_text history))\<rparr>\<rparr>)" .
  then show ?thesis
    using h1 a h2 h7
    by (simp add: ct warm_def cold_def CURASEV_BASE_URL_def demo_address)
qed

text \<open>
  The search component is not always the query string as received: the query
  \<^verbatim>\<open>q='x'\<close> is forwarded as \<^verbatim>\<open>q=%27x%27\<close>.
\<close>

theorem forward_relays_response_counterexample:
  "address (demo_request ''GET'' apostrophe_target ''YWRtaW46czNjcmV0'') =
     ''/api/report/download-history?q='' @ [CHR 0x27] @ ''x'' @ [CHR 0x27] \<and>
   fst (handler (demo_runtime (service token_granted history)) demo_penv
     (demo_request ''GET'' apostrophe_target ''YWRtaW46czNjcmV0'') warm) = Inr () \<and>
   map fst (calls (snd (handler (demo_runtime (service token_granted history)) demo_penv
     (demo_request ''GET'' apostrophe_target ''YWRtaW46czNjcmV0'') warm))) =
     [''https://api.curasev.com/api/v1/report/get-all-download-history?q=%27x%27''] \<and>
   ''https://api.curasev.com/api/v1/report/get-all-download-history?q=%27x%27'' \<noteq>
     ''https://api.curasev.com/api/v1/report/get-all-download-history?q='' @ [CHR 0x27] @ ''x'' @ [CHR 0x27]"
proof -
  have a: "address (demo_request ''GET'' apostrophe_target ''YWRtaW46czNjcmV0'') =
     ''/api/report/download-history?q='' @ [CHR 0x27] @ ''x'' @ [CHR 0x27]"
    by (simp add: demo_address apostrophe_target_def)
  have n: "''https://api.curasev.com/api/v1/report/get-all-download-history?q=%27x%27'' \<noteq>
     ''https://api.curasev.com/api/v1/report/get-all-download-history?q='' @ [CHR 0x27] @ ''x'' @ [CHR 0x27]"
    by simp
  show ?thesis
    unfolding demo_forward_ok[OF demo_apostrophe_URL_new]
    using a n by simp
qed



lemma forward_body_other:
  assumes "req_method req \<noteq> ''GET''" "req_method req \<noteq> ''HEAD''" "\<forall>s. req_body req \<noteq> JStr s"
  shows "getForwardBody rt req =
           (if truthy (req_body req) then Some (JSON_stringify rt (req_body req)) else None)"
  using assms by (cases "req_body req") (simp_all add: getForwardBody_def)

section \<open>The route dispatcher\<close>

text \<open>
  C7. Under a valid configuration, a request whose target \<^verbatim>\<open>new URL\<close> can parse
  and whose path is neither of the two routes is answered with status 404 and the body
  \<^verbatim>\<open>{error: "Not Found"}\<close>. Nothing else changes: no upstream call is issued, the
  clock is not read, the cache is untouched, and the outcome does not depend on the
  \<^verbatim>\<open>Authorization\<close> header, which only the guard reads.
\<close>

theorem unknown_path_not_found:
  assumes "valid_config penv"
    and "URL_new rt (address req) (address_base req) = Some u"
    and "pathname u \<noteq> ''/api/auth/login''"
    and "pathname u \<noteq> ''/api/report/download-history''"
  shows "handler rt penv req w =
           (Inr (), w\<lparr>res := \<lparr>statusCode = 404, res_headers = res_headers (res w),
                                sent = Some (Json (JObj [(''error'', JStr ''Not Found'')]))\<rparr>\<rparr>) \<and>
         calls (snd (handler rt penv req w)) = calls w \<and>
         (\<forall>h. handler rt penv (req\<lparr>req_headers := (req_headers req)(''authorization'' := h)\<rparr>) w =
              handler rt penv req w)"
proof -
  have env: "getEnv penv = Inr (config penv)"
    using assms(1) by (rule getEnv_valid)
  have none: "routes rt (pathname u) = None"
    using assms(3,4) by (simp add: routes_eq)
  have eq: "\<And>req'. request_URL rt req' = Inr u \<Longrightarrow> handler rt penv req' w =
           (Inr (), w\<lparr>res := \<lparr>statusCode = 404, res_headers = res_headers (res w),
                                sent = Some (Json (JObj [(''error'', JStr ''Not Found'')]))\<rparr>\<rparr>)"
    using handler_none[OF env _ none] by (simp add: res_json_def res_status_def)
  have url: "request_URL rt req = Inr u"
    using assms(2) by (simp add: request_URL_eq)
  have url': "request_URL rt (req\<lparr>req_headers := (req_headers req)(''authorization'' := h)\<rparr>) = Inr u" for h
    using assms(2) by (simp add: request_URL_eq address_authorization)
  show ?thesis
    using eq[OF url] eq[OF url'] by simp
qed

theorem unknown_path_not_found_witness:
  "valid_config demo_penv \<and>
   URL_new (demo_runtime (service token_granted history))
     (address (demo_request ''GET'' ''/api/foo'' ''YWRtaW46d3Jvbmc=''))
     (address_base (demo_request ''GET'' ''/api/foo'' ''YWRtaW46d3Jvbmc='')) =
     Some \<lparr>pathname = ''/api/foo'', search = []\<rparr> \<and>
   statusCode (res (snd (handler (demo_runtime (service token_granted history)) demo_penv
     (demo_request ''GET'' ''/api/foo'' ''YWRtaW46d3Jvbmc='') cold))) = 404 \<and>
   sent (res (snd (handler (demo_runtime (service token_granted history)) demo_penv
     (demo_request ''GET'' ''/api/foo'' ''YWRtaW46d3Jvbmc='') cold))) =
     Some (Json (JObj [(''error'', JStr ''Not Found'')])) \<and>
   calls (snd (handler (demo_runtime (service token_granted history)) demo_penv
     (demo_request ''GET'' ''/api/foo'' ''YWRtaW46d3Jvbmc='') cold)) = []"
proof -
  let ?rt = "demo_runtime (service token_granted history)"
  let ?req = "demo_request ''GET'' ''/api/foo'' ''YWRtaW46d3Jvbmc=''"
  let ?u = "\<lparr>pathname = ''/api/foo'', search = []\<rparr>"
  have h1: "valid_config demo_penv" using demo_valid_config by simp
  have "demo_URL ''/api/foo'' ''https://reports.example.com'' = Some ?u" by code_simp
  then have h2: "URL_new ?rt (address ?req) (address_base ?req) = Some ?u"
    by (simp add: demo_address demo_runtime_def)
  have h3: "pathname ?u \<noteq> ''/api/auth/login''" by simp
  have h4: "pathname ?u \<noteq> ''/api/report/download-history''" by simp
  from unknown_path_not_found[OF h1 h2 h3 h4, of cold] h1 h2 show ?thesis
    by (simp add: cold_def)
qed

text \<open>
  Not every request off the two routes gets the 404. The target \<^verbatim>\<open>//\<close> has no
  host, \<^verbatim>\<open>new URL\<close> raises, and since the route is resolved before the
  \<^verbatim>\<open>try\<close> block the handler rejects and writes nothing; the same happens to any
  request when a configuration value is missing.
\<close>

theorem unknown_path_not_found_counterexample:
  "address (demo_request ''GET'' ''//'' ''YWRtaW46czNjcmV0'') = ''//'' \<and>
   valid_config demo_penv \<and>
   handler (demo_runtime (service token_granted history)) demo_penv
     (demo_request ''GET'' ''//'' ''YWRtaW46czNjcmV0'') cold =
     (Inl \<lparr>message = ''Invalid URL'', err_status = None, details = JUndefined\<rparr>, cold) \<and>
   address (demo_request ''GET'' ''/api/foo'' ''YWRtaW46czNjcmV0'') = ''/api/foo'' \<and>
   handler (demo_runtime (service token_granted history)) incomplete_penv
     (demo_request ''GET'' ''/api/foo'' ''YWRtaW46czNjcmV0'') cold =
     (Inl \<lparr>message = ''Missing environment variables'', err_status = Some 500,
           details = JStr ''BASIC_AUTH_PASS''\<rparr>, cold) \<and>
   sent (res cold) = None"
proof -
  let ?rt = "demo_runtime (service token_granted history)"
  have a: "address (demo_request ''GET'' ''//'' ''YWRtaW46czNjcmV0'') = ''//''"
    "address (demo_request ''GET'' ''/api/foo'' ''YWRtaW46czNjcmV0'') = ''/api/foo''"
    by (simp_all add: demo_address)
  have v: "valid_config demo_penv" using demo_valid_config by simp
  have "demo_URL ''//'' ''https://reports.example.com'' = None" by code_simp
  then have "request_URL ?rt (demo_request ''GET'' ''//'' ''YWRtaW46czNjcmV0'') =
               Inl (plain_error ''Invalid URL'')"
    by (simp add: request_URL_eq demo_address demo_runtime_def)
  then have h1: "handler ?rt demo_penv (demo_request ''GET'' ''//'' ''YWRtaW46czNjcmV0'') cold =
     (Inl \<lparr>message = ''Invalid URL'', err_status = None, details = JUndefined\<rparr>, cold)"
    by (simp add: handler_def demo_getEnv resolveRoute_def plain_error_def)
  have i: "issues incomplete_penv = [''BASIC_AUTH_PASS'']"
    by (simp add: issues_def issue_def REQUIRED_ENV_def demo_penv_def incomplete_penv_def)
  have h2: "handler ?rt incomplete_penv (demo_request ''GET'' ''/api/foo'' ''YWRtaW46czNjcmV0'') cold =
     (Inl \<lparr>message = ''Missing environment variables'', err_status = Some 500,
           details = JStr ''BASIC_AUTH_PASS''\<rparr>, cold)"
    by (simp add: handler_def getEnv_def i)
  have s: "sent (res cold) = None" by (simp add: cold_def)
  from a v h1 h2 s show ?thesis by blast
qed

text \<open>
  C9. The handler is to answer a missing or empty configuration value with status 500
  and an envelope that lists the missing names, written by its \<^verbatim>\<open>catch\<close> block
  like every other failure. \<^const>\<open>getEnv\<close> does raise an error with status 500
  whose details list the missing names, but the handler calls it before its
  \<^verbatim>\<open>try\<close> block, so the error is not caught: the promise the handler returns
  rejects with it, and nothing is written to the response, neither a status nor an
  envelope.
\<close>

theorem handler_rejects_on_configuration_error:
  assumes "\<exists>k \<in> set REQUIRED_ENV. penv k = None \<or> penv k = Some []"
  shows "handler rt penv req w =
           (Inl \<lparr>message = ''Missing environment variables'', err_status = Some 500,
                 details = JStr (join '', '' (issues penv))\<rparr>, w)"
  using assms by (simp add: handler_def getEnv_def issues_nonempty_iff[symmetric])

theorem handler_rejects_on_configuration_error_witness:
  "(\<exists>k \<in> set REQUIRED_ENV. incomplete_penv k = None \<or> incomplete_penv k = Some []) \<and>
   handler (demo_runtime (service token_granted history)) incomplete_penv
     (demo_request ''POST'' ''/api/auth/login'' ''YWRtaW46czNjcmV0'') cold =
     (Inl \<lparr>message = ''Missing environment variables'', err_status = Some 500,
           details = JStr ''BASIC_AUTH_PASS''\<rparr>, cold) \<and>
   sent (res cold) = None"
proof -
  have h: "\<exists>k \<in> set REQUIRED_ENV. incomplete_penv k = None \<or> incomplete_penv k = Some []"
    by (simp add: REQUIRED_ENV_def incomplete_penv_def)
  have i: "issues incomplete_penv = [''BASIC_AUTH_PASS'']"
    by (simp add: issues_def issue_def REQUIRED_ENV_def demo_penv_def incomplete_penv_def)
  have s: "sent (res cold) = None"
    by (simp add: cold_def)
  have j: "join '', '' [''BASIC_AUTH_PASS''] = ''BASIC_AUTH_PASS''"
    by simp
  from handler_rejects_on_configuration_error[OF h,
      of "demo_runtime (service token_granted history)"
         "demo_request ''POST'' ''/api/auth/login'' ''YWRtaW46czNjcmV0''" cold]
  have "handler (demo_runtime (service token_granted history)) incomplete_penv
     (demo_request ''POST'' ''/api/auth/login'' ''YWRtaW46czNjcmV0'') cold =
     (Inl \<lparr>message = ''Missing environment variables'', err_status = Some 500,
           details = JStr ''BASIC_AUTH_PASS''\<rparr>, cold)"
    unfolding i j .
  with h s show ?thesis by blast
qed

end
